theory Spec2Isabelle
  imports Complex_Main "HOL-Library.Word" "HOL-Library.AList"
begin

unbundle bit_operations_syntax

section \<open>Type lattice\<close>

text \<open>
  Modelled from the spec: the class \<open>python::Type\<close> is declared outside
  \<open>PythonContext.cc\<close>. The constructors follow section 3 of the specification (scalars,
  \<open>Option\<close>, \<open>Tuple\<close>, \<open>List\<close>, \<open>Dict\<close>, the two special dictionary constants and
  \<open>UNKNOWN\<close>); \<open>makeOptionType\<close> and \<open>makeTupleType\<close> are the constructors \<open>Option\<close> and
  \<open>Tuple\<close>.
\<close>

datatype Type =
    UNKNOWN | BOOLEAN | I64 | F64 | STRING | NULLVALUE | PYOBJECT
  | EMPTYDICT | GENERICDICT
  | Option Type
  | Tuple "Type list"
  | List Type
  | Dict Type Type

fun isOptionType :: "Type \<Rightarrow> bool" where
  "isOptionType (Option t) = True"
| "isOptionType _ = False"

fun isTupleType :: "Type \<Rightarrow> bool" where
  "isTupleType (Tuple ts) = True"
| "isTupleType _ = False"

fun isListType :: "Type \<Rightarrow> bool" where
  "isListType (List t) = True"
| "isListType _ = False"

fun isDictionaryType :: "Type \<Rightarrow> bool" where
  "isDictionaryType (Dict k v) = True"
| "isDictionaryType EMPTYDICT = True"
| "isDictionaryType GENERICDICT = True"
| "isDictionaryType _ = False"

fun getReturnType :: "Type \<Rightarrow> Type" where
  "getReturnType (Option t) = t"
| "getReturnType _ = UNKNOWN"

fun keyType :: "Type \<Rightarrow> Type" where
  "keyType (Dict k v) = k"
| "keyType _ = UNKNOWN"

fun parameters :: "Type \<Rightarrow> Type list" where
  "parameters (Tuple ts) = ts"
| "parameters _ = []"

text \<open>
  \<open>isSubOptionType\<close> (lines 450-462) and \<open>hasSuperOptionType\<close> (lines 770-806) are
  functions of \<open>PythonContext.cc\<close>. The loops over the tuple parameters are the list
  recursions \<open>subOptionParams\<close> and \<open>superOptionParams\<close>; the C++ out-parameter \<open>super\<close>
  is the \<open>Some\<close> result, and it is assigned only on the paths that return true.
\<close>

fun isSubOptionType :: "Type \<Rightarrow> Type \<Rightarrow> bool"
  and subOptionParams :: "Type list \<Rightarrow> Type list \<Rightarrow> bool" where
  "isSubOptionType t1 t2 =
     (if t1 = t2 then True
      else if isOptionType t2 \<and> (t1 = getReturnType t2 \<or> t1 = NULLVALUE) then True
      else (case t1 of
              Tuple ps \<Rightarrow> (case t2 of
                  Tuple qs \<Rightarrow> if length ps = length qs then subOptionParams ps qs else False
                | _ \<Rightarrow> False)
            | _ \<Rightarrow> False))"
| "subOptionParams (p # ps) (q # qs) =
     (if \<not> isSubOptionType p q then False else subOptionParams ps qs)"
| "subOptionParams _ _ = True"

fun hasSuperOptionType :: "Type \<Rightarrow> Type \<Rightarrow> Type option"
  and superOptionParams :: "Type list \<Rightarrow> Type list \<Rightarrow> Type list option" where
  "hasSuperOptionType t1 t2 =
     (if t1 = t2 then Some t1
      else if isOptionType t1 \<and> (getReturnType t1 = t2 \<or> NULLVALUE = t2) then Some t1
      else if isOptionType t2 \<and> (getReturnType t2 = t1 \<or> NULLVALUE = t1) then Some t2
      else if t1 = NULLVALUE then Some (Option t2)
      else if t2 = NULLVALUE then Some (Option t1)
      else (case t1 of
              Tuple ps \<Rightarrow> (case t2 of
                  Tuple qs \<Rightarrow> if length ps = length qs
                              then map_option Tuple (superOptionParams ps qs) else None
                | _ \<Rightarrow> None)
            | _ \<Rightarrow> None))"
| "superOptionParams (p # ps) (q # qs) =
     (case hasSuperOptionType p q of
        None \<Rightarrow> None
      | Some s \<Rightarrow> map_option ((#) s) (superOptionParams ps qs))"
| "superOptionParams _ _ = Some []"

section \<open>Binary64 arithmetic\<close>

text \<open>
  The inferencer computes its fractions in \<open>double\<close>: IEEE 754 binary64, each operation
  rounded to the nearest representable value, ties to the even significand. A finite
  \<open>double\<close> is \<open>Finite m e\<close>, the number \<open>m * 2^e\<close>; the two zeros are one value (the file
  never divides by a threshold, and the zero it divides by is the conversion of an
  integer, which is \<open>+0\<close>). \<open>round_ratio\<close> rounds \<open>p / q * 2^s\<close> for \<open>p \<ge> 0\<close> and \<open>q > 0\<close>:
  it scales the quotient into \<open>[2^52, 2^53)\<close>, or to the subnormal spacing \<open>2^-1074\<close>
  when that is coarser, rounds to an integer, and overflows to an infinity from
  \<open>2^1024\<close> on. \<open>bit_length n\<close> is the number of binary digits of \<open>n\<close>.
\<close>

datatype double = Finite int int | PInf | NInf | NaN

function bit_length :: "int \<Rightarrow> int" where
  "bit_length n = (if n \<le> 0 then 0 else 1 + bit_length (n div 2))"
  by pat_completeness auto

termination
  by (relation "measure nat") auto

declare bit_length.simps [simp del]

definition round_half_even :: "int \<Rightarrow> int \<Rightarrow> int" where
  "round_half_even p q =
     (let n = p div q; r = p mod q in
      if 2 * r < q then n else if q < 2 * r then n + 1 else if even n then n else n + 1)"

definition scaled_ge :: "int \<Rightarrow> int \<Rightarrow> int \<Rightarrow> int \<Rightarrow> bool" where
  "scaled_ge p q k t \<longleftrightarrow>
     (if 0 \<le> k then q * t \<le> p * 2 ^ nat k else q * t * 2 ^ nat (- k) \<le> p)"

definition scaled_round :: "int \<Rightarrow> int \<Rightarrow> int \<Rightarrow> int" where
  "scaled_round p q k =
     (if 0 \<le> k then round_half_even (p * 2 ^ nat k) q else round_half_even p (q * 2 ^ nat (- k)))"

definition round_ratio :: "bool \<Rightarrow> int \<Rightarrow> int \<Rightarrow> int \<Rightarrow> double" where
  "round_ratio negative p q s =
     (if p = 0 then Finite 0 0
      else
        (let k0 = 53 + bit_length q - bit_length p;
             k1 = (if scaled_ge p q k0 (2 ^ 53) then k0 - 1 else k0);
             k = min k1 (s + 1074);
             m = scaled_round p q k;
             e = s - k
         in if 971 < e \<or> (e = 971 \<and> 2 ^ 53 \<le> m) then (if negative then NInf else PInf)
            else Finite (if negative then - m else m) e))"

definition double_of_int :: "int \<Rightarrow> double" where
  "double_of_int a = round_ratio (a < 0) \<bar>a\<bar> 1 0"

text \<open>
  Conversion of an integer, subtraction, division, multiplication, \<open>ceil\<close> and the
  comparisons \<open><\<close> and \<open><=\<close>, each the exact result rounded; a comparison with a NaN is
  false. \<open>valof\<close> is the real number a finite \<open>double\<close> denotes.
\<close>

fun dsub :: "double \<Rightarrow> double \<Rightarrow> double" where
  "dsub (Finite m1 e1) (Finite m2 e2) =
     (let e = min e1 e2; d = m1 * 2 ^ nat (e1 - e) - m2 * 2 ^ nat (e2 - e)
      in round_ratio (d < 0) \<bar>d\<bar> 1 e)"
| "dsub NaN y = NaN"
| "dsub x NaN = NaN"
| "dsub PInf PInf = NaN"
| "dsub NInf NInf = NaN"
| "dsub PInf y = PInf"
| "dsub NInf y = NInf"
| "dsub x PInf = NInf"
| "dsub x NInf = PInf"

fun ddiv :: "double \<Rightarrow> double \<Rightarrow> double" where
  "ddiv (Finite m1 e1) (Finite m2 e2) =
     (if m2 = 0 then (if m1 = 0 then NaN else if 0 < m1 then PInf else NInf)
      else round_ratio ((m1 < 0) \<noteq> (m2 < 0)) \<bar>m1\<bar> \<bar>m2\<bar> (e1 - e2))"
| "ddiv NaN y = NaN"
| "ddiv x NaN = NaN"
| "ddiv (Finite m e) y = Finite 0 0"
| "ddiv PInf (Finite m e) = (if m < 0 then NInf else PInf)"
| "ddiv NInf (Finite m e) = (if m < 0 then PInf else NInf)"
| "ddiv x y = NaN"

fun dmul :: "double \<Rightarrow> double \<Rightarrow> double" where
  "dmul (Finite m1 e1) (Finite m2 e2) =
     round_ratio ((m1 < 0) \<noteq> (m2 < 0)) \<bar>m1 * m2\<bar> 1 (e1 + e2)"
| "dmul NaN y = NaN"
| "dmul x NaN = NaN"
| "dmul (Finite m e) PInf = (if m = 0 then NaN else if m < 0 then NInf else PInf)"
| "dmul (Finite m e) NInf = (if m = 0 then NaN else if m < 0 then PInf else NInf)"
| "dmul PInf (Finite m e) = (if m = 0 then NaN else if m < 0 then NInf else PInf)"
| "dmul NInf (Finite m e) = (if m = 0 then NaN else if m < 0 then PInf else NInf)"
| "dmul PInf PInf = PInf"
| "dmul NInf NInf = PInf"
| "dmul PInf NInf = NInf"
| "dmul NInf PInf = NInf"

fun dceil :: "double \<Rightarrow> double" where
  "dceil (Finite m e) = (if 0 \<le> e then Finite m e else Finite (- ((- m) div 2 ^ nat (- e))) 0)"
| "dceil x = x"

fun dless :: "double \<Rightarrow> double \<Rightarrow> bool" where
  "dless (Finite m1 e1) (Finite m2 e2) =
     (let e = min e1 e2 in m1 * 2 ^ nat (e1 - e) < m2 * 2 ^ nat (e2 - e))"
| "dless NaN y = False"
| "dless x NaN = False"
| "dless x NInf = False"
| "dless PInf y = False"
| "dless NInf y = True"
| "dless x PInf = True"

fun dle :: "double \<Rightarrow> double \<Rightarrow> bool" where
  "dle (Finite m1 e1) (Finite m2 e2) =
     (let e = min e1 e2 in m1 * 2 ^ nat (e1 - e) \<le> m2 * 2 ^ nat (e2 - e))"
| "dle NaN y = False"
| "dle x NaN = False"
| "dle NInf y = True"
| "dle x PInf = True"
| "dle x y = False"

fun valof :: "double \<Rightarrow> real" where
  "valof (Finite m e) = (if 0 \<le> e then of_int m * 2 ^ nat e else of_int m / 2 ^ nat (- e))"
| "valof x = 0"

section \<open>Sample inferencer\<close>

text \<open>
  \<open>buildRowTypeFromSamples\<close> (lines 808-866). The histogram \<open>std::map<python::Type, int>\<close>
  is the list of its entries in the map's iteration order (the order of \<open>python::Type\<close>,
  which is declared elsewhere, so the list is taken as it comes). \<open>std::sort\<close> with the
  \<open>isSubclass\<close> comparator is the parameter \<open>srt\<close>: \<open>isSubclass\<close> is not part of the
  file. Counts are C++ \<open>int\<close>s; they add up to at most the sample size, which is an
  \<open>int\<close> itself, so the sums are written on \<open>int\<close>. The fractions are computed in
  \<open>double\<close> as lines 853-854 and 859-860 do: both counts converted, the quotient rounded,
  \<open>1 - threshold\<close> rounded, and the two comparisons made on the rounded values.
  \<open>colTypes.at\<close> throws \<open>std::out_of_range\<close> on an absent key.
\<close>

datatype exn = OutOfRange | RuntimeError string

type_synonym histogram = "(Type \<times> int) list"

definition INT_MIN :: int where
  "INT_MIN = - (2 ^ 31)"

record majority =
  the_max :: int
  the_majType :: Type
  the_maxTuple :: int
  the_majTupleType :: Type

definition majority_step :: "Type \<times> int \<Rightarrow> majority \<Rightarrow> majority" where
  "majority_step entry a =
     (let type = fst entry; frequency = snd entry;
          a1 = (if frequency > the_max a
                then a\<lparr>the_max := frequency, the_majType := type\<rparr> else a)
      in if isTupleType type \<and> frequency > the_maxTuple a1
         then a1\<lparr>the_maxTuple := frequency, the_majTupleType := type\<rparr> else a1)"

definition majority_scan :: "histogram \<Rightarrow> majority" where
  "majority_scan types =
     fold majority_step types
       \<lparr>the_max = INT_MIN, the_majType = UNKNOWN, the_maxTuple = INT_MIN, the_majTupleType = UNKNOWN\<rparr>"

text \<open>
  One iteration of the loop of lines 847-852: \<open>hasSuperOptionType(it.first, superTuple,
  superTuple)\<close> tests the histogram key against the running \<open>superTuple\<close> and overwrites
  it on success.
\<close>

definition cover_step :: "Type \<times> int \<Rightarrow> Type \<times> int \<Rightarrow> Type \<times> int" where
  "cover_step it acc =
     (case hasSuperOptionType (fst it) (fst acc) of
        Some s \<Rightarrow> (s, snd acc + snd it)
      | None \<Rightarrow> acc)"

text \<open>
  The band as the specification words it, on real numbers: the fraction lies strictly
  between \<open>1 - \<theta>\<close> and \<open>\<theta>\<close>. It is compared with the code below.
\<close>

definition in_band :: "real \<Rightarrow> real \<Rightarrow> bool" where
  "in_band threshold fraction \<longleftrightarrow> fraction > 1 - threshold \<and> fraction < threshold"

definition optionizeTuple :: "histogram \<Rightarrow> int \<Rightarrow> double \<Rightarrow> majority \<Rightarrow> exn + Type" where
  "optionizeTuple colTypes numSamples threshold a =
     (if isTupleType (the_majTupleType a) then
        (let acc = fold cover_step colTypes (the_majTupleType a, 0);
             superTuple = fst acc; num = snd acc in
         case map_of colTypes (the_majTupleType a) of
           None \<Rightarrow> Inl OutOfRange
         | Some c \<Rightarrow>
             (let fraction = ddiv (double_of_int (num - c)) (double_of_int numSamples) in
              Inr (if num > the_max a \<and> dless (dsub (double_of_int 1) threshold) fraction
                        \<and> dless fraction threshold
                   then superTuple else the_majType a)))
      else Inr (the_majType a))"

definition liftNone :: "histogram \<Rightarrow> int \<Rightarrow> double \<Rightarrow> Type \<Rightarrow> Type" where
  "liftNone colTypes numSamples threshold m =
     (if m \<noteq> UNKNOWN \<and> m \<noteq> NULLVALUE \<and> map_of colTypes NULLVALUE \<noteq> None then
        (let noneFraction =
               ddiv (double_of_int (the (map_of colTypes NULLVALUE))) (double_of_int numSamples) in
         if dless (dsub (double_of_int 1) threshold) noneFraction \<and> dless noneFraction threshold
         then Option m else m)
      else m)"

definition buildRowTypeFromSamples ::
  "(histogram \<Rightarrow> histogram) \<Rightarrow> histogram \<Rightarrow> int \<Rightarrow> double \<Rightarrow> exn + Type" where
  "buildRowTypeFromSamples srt colTypes numSamples threshold =
     (case optionizeTuple colTypes numSamples threshold (majority_scan (srt colTypes)) of
        Inl e \<Rightarrow> Inl e
      | Inr m \<Rightarrow> Inr (liftNone colTypes numSamples threshold m))"

lemma Option_neq_self: "Option m \<noteq> m"
  by (induction m) auto

lemmas double_defs =
  round_ratio_def scaled_ge_def scaled_round_def round_half_even_def double_of_int_def
  bit_length.simps

text \<open>
  Claim C1, as stated, fails on the code at the edges of the band. The threshold is a
  \<open>double\<close>; take the one nearest to 0.65, which is \<open>5854679515581645 / 2^53\<close>, and a
  sample of 13 strings and 7 \<open>None\<close>. The fraction 7/20 lies strictly inside the band of
  that threshold, yet the code returns \<open>STRING\<close>: the quotient and \<open>1 - threshold\<close> round
  to the same \<open>double\<close>, so \<open>noneFraction > 1 - threshold\<close> is false. Reading the
  threshold as the decimal it was written as does not help: with 9 strings and 1 \<open>None\<close>
  the fraction 1/10 is not strictly inside the band of 9/10, yet with the \<open>double\<close>
  nearest to 0.9 the code returns \<open>Option STRING\<close>.
\<close>

theorem option_lifting_real_band_counterexample:
  "ddiv (double_of_int 65) (double_of_int 100) = Finite 5854679515581645 (- 53)
   \<and> in_band (valof (Finite 5854679515581645 (- 53))) (7 / 20)
   \<and> buildRowTypeFromSamples id [(STRING, 13), (NULLVALUE, 7)] 20
        (Finite 5854679515581645 (- 53)) = Inr STRING
   \<and> \<not> in_band (9 / 10) (1 / 10)
   \<and> buildRowTypeFromSamples id [(STRING, 9), (NULLVALUE, 1)] 10
        (ddiv (double_of_int 9) (double_of_int 10)) = Inr (Option STRING)"
  by (simp add: buildRowTypeFromSamples_def liftNone_def optionizeTuple_def majority_scan_def
      majority_step_def INT_MIN_def in_band_def double_defs Let_def)

text \<open>
  Claim C1, amended. When the majority type \<open>m\<close> (the value of \<open>majType\<close> when line 857 is
  reached) is neither \<open>UNKNOWN\<close> nor \<open>NULLVALUE\<close> and the histogram has an entry for
  \<open>NULLVALUE\<close> with count \<open>c\<close>, the inferencer returns \<open>Option m\<close> if and only if the
  \<open>double\<close> quotient of \<open>c\<close> by the sample size is greater than the \<open>double\<close> difference
  \<open>1 - threshold\<close> and less than the threshold, and returns \<open>m\<close> otherwise.
\<close>

theorem option_lifting_double_band:
  assumes "optionizeTuple colTypes numSamples threshold (majority_scan (srt colTypes)) = Inr m"
    and "m \<noteq> UNKNOWN" and "m \<noteq> NULLVALUE"
    and "map_of colTypes NULLVALUE = Some c"
  shows "buildRowTypeFromSamples srt colTypes numSamples threshold =
           Inr (if dless (dsub (double_of_int 1) threshold)
                     (ddiv (double_of_int c) (double_of_int numSamples))
                   \<and> dless (ddiv (double_of_int c) (double_of_int numSamples)) threshold
                then Option m else m)
         \<and> (buildRowTypeFromSamples srt colTypes numSamples threshold = Inr (Option m)
              \<longleftrightarrow> dless (dsub (double_of_int 1) threshold)
                     (ddiv (double_of_int c) (double_of_int numSamples))
                   \<and> dless (ddiv (double_of_int c) (double_of_int numSamples)) threshold)"
  using assms Option_neq_self [of m]
  by (auto simp: buildRowTypeFromSamples_def liftNone_def)

theorem option_lifting_double_band_witness:
  "buildRowTypeFromSamples id [(STRING, 3), (NULLVALUE, 2)] 5
     (ddiv (double_of_int 9) (double_of_int 10)) = Inr (Option STRING)
   \<and> buildRowTypeFromSamples id [(STRING, 13), (NULLVALUE, 7)] 20
     (Finite 5854679515581645 (- 53)) = Inr STRING"
proof -
  let ?t = "ddiv (double_of_int 9) (double_of_int 10)"
  let ?u = "Finite 5854679515581645 (- 53)"
  have a: "optionizeTuple [(STRING, 3), (NULLVALUE, 2)] 5 ?t
             (majority_scan (id [(STRING, 3), (NULLVALUE, 2)])) = Inr STRING"
    by (simp add: optionizeTuple_def majority_scan_def majority_step_def INT_MIN_def Let_def)
  have b: "optionizeTuple [(STRING, 13), (NULLVALUE, 7)] 20 ?u
             (majority_scan (id [(STRING, 13), (NULLVALUE, 7)])) = Inr STRING"
    by (simp add: optionizeTuple_def majority_scan_def majority_step_def INT_MIN_def Let_def)
  have "buildRowTypeFromSamples id [(STRING, 3), (NULLVALUE, 2)] 5 ?t = Inr (Option STRING)"
    using option_lifting_double_band
      [where numSamples = 5 and colTypes = "[(STRING, 3), (NULLVALUE, 2)]" and srt = id
         and threshold = ?t and m = STRING and c = 2] a
    by (simp add: double_defs Let_def)
  moreover have "buildRowTypeFromSamples id [(STRING, 13), (NULLVALUE, 7)] 20 ?u = Inr STRING"
    using option_lifting_double_band
      [where numSamples = 20 and colTypes = "[(STRING, 13), (NULLVALUE, 7)]" and srt = id
         and threshold = ?u and m = STRING and c = 7] b
    by (simp add: double_defs Let_def)
  ultimately show ?thesis by simp
qed

text \<open>
  The coverage count as section 4.B of the specification words it: the sum of the counts
  of the histogram types whose super-option with the majority tuple type \<open>mt\<close> is defined,
  minus the count of \<open>mt\<close>. It is compared with the code below.
\<close>

definition spec_cov :: "histogram \<Rightarrow> Type \<Rightarrow> int" where
  "spec_cov colTypes mt =
     sum_list (map (\<lambda>it. if hasSuperOptionType (fst it) mt \<noteq> None then snd it else 0) colTypes)
     - the (map_of colTypes mt)"

lemmas inferencer_defs =
  optionizeTuple_def majority_scan_def majority_step_def cover_step_def INT_MIN_def
  spec_cov_def in_band_def Let_def

text \<open>
  Claim C3, as stated, fails on the code. First histogram: three \<open>(I64)\<close> and two
  \<open>(NULL)\<close> rows with the threshold 0.9 (the \<open>double\<close> nearest to it); the
  specification's \<open>cov\<close> is 2, not above the maximal count 3, yet the code replaces the
  majority type by \<open>(Option I64)\<close>, because it compares the total \<open>num = 5\<close> with the
  maximal count. Second histogram: two \<open>(I64)\<close>, three \<open>(NULL)\<close> and two \<open>(STRING)\<close> rows
  with the threshold 0.7; the specification's \<open>cov\<close> is 4, above 3 and with 4/7 inside
  the band, yet the code keeps \<open>(NULL)\<close>, because \<open>(STRING)\<close> has no super-option with the
  running super tuple \<open>(Option I64)\<close> and its fraction is 2/7.
\<close>

theorem super_tuple_cov_counterexample:
  "the_majTupleType (majority_scan [(Tuple [I64], 3), (Tuple [NULLVALUE], 2)]) = Tuple [I64]
   \<and> the_max (majority_scan [(Tuple [I64], 3), (Tuple [NULLVALUE], 2)]) = 3
   \<and> spec_cov [(Tuple [I64], 3), (Tuple [NULLVALUE], 2)] (Tuple [I64]) = 2
   \<and> optionizeTuple [(Tuple [I64], 3), (Tuple [NULLVALUE], 2)] 5
         (ddiv (double_of_int 9) (double_of_int 10))
         (majority_scan [(Tuple [I64], 3), (Tuple [NULLVALUE], 2)]) = Inr (Tuple [Option I64])
   \<and> the_majTupleType (majority_scan [(Tuple [I64], 2), (Tuple [NULLVALUE], 3), (Tuple [STRING], 2)])
         = Tuple [NULLVALUE]
   \<and> the_max (majority_scan [(Tuple [I64], 2), (Tuple [NULLVALUE], 3), (Tuple [STRING], 2)]) = 3
   \<and> spec_cov [(Tuple [I64], 2), (Tuple [NULLVALUE], 3), (Tuple [STRING], 2)] (Tuple [NULLVALUE]) = 4
   \<and> in_band (valof (ddiv (double_of_int 7) (double_of_int 10))) (4 / 7)
   \<and> optionizeTuple [(Tuple [I64], 2), (Tuple [NULLVALUE], 3), (Tuple [STRING], 2)] 7
         (ddiv (double_of_int 7) (double_of_int 10))
         (majority_scan [(Tuple [I64], 2), (Tuple [NULLVALUE], 3), (Tuple [STRING], 2)])
         = Inr (Tuple [NULLVALUE])"
  by (simp add: inferencer_defs double_defs)

text \<open>
  Claim C3, amended. When a majority tuple type exists (and is a key of the histogram,
  as it is whenever \<open>std::sort\<close> returns a permutation), the majority type is replaced by
  the accumulated super tuple exactly when \<open>num\<close> exceeds the maximal count and the
  \<open>double\<close> quotient of \<open>num - count mt\<close> by the sample size is greater than the \<open>double\<close>
  difference \<open>1 - threshold\<close> and less than the threshold, where \<open>num\<close> is the sum of the
  counts of the histogram types, visited in key order, that have a super-option with
  the super tuple accumulated so far (starting from \<open>mt\<close>).
\<close>

theorem super_tuple_replacement:
  assumes "isTupleType (the_majTupleType a)"
    and "map_of colTypes (the_majTupleType a) = Some c"
  shows "optionizeTuple colTypes numSamples threshold a =
           Inr (if snd (fold cover_step colTypes (the_majTupleType a, 0)) > the_max a
                   \<and> dless (dsub (double_of_int 1) threshold)
                        (ddiv (double_of_int (snd (fold cover_step colTypes (the_majTupleType a, 0)) - c))
                           (double_of_int numSamples))
                   \<and> dless
                        (ddiv (double_of_int (snd (fold cover_step colTypes (the_majTupleType a, 0)) - c))
                           (double_of_int numSamples))
                        threshold
                then fst (fold cover_step colTypes (the_majTupleType a, 0))
                else the_majType a)"
  using assms by (simp add: optionizeTuple_def Let_def)

theorem super_tuple_replacement_witness:
  "optionizeTuple [(Tuple [I64], 3), (Tuple [NULLVALUE], 2)] 5
     (ddiv (double_of_int 9) (double_of_int 10))
     (majority_scan [(Tuple [I64], 3), (Tuple [NULLVALUE], 2)]) = Inr (Tuple [Option I64])
   \<and> optionizeTuple [(Tuple [I64], 13), (Tuple [NULLVALUE], 7)] 20
        (Finite 5854679515581645 (- 53))
        (majority_scan [(Tuple [I64], 13), (Tuple [NULLVALUE], 7)]) = Inr (Tuple [I64])"
proof -
  let ?h = "[(Tuple [I64], 3), (Tuple [NULLVALUE], 2)]"
  let ?g = "[(Tuple [I64], 13), (Tuple [NULLVALUE], 7)]"
  have t: "isTupleType (the_majTupleType (majority_scan ?h))"
    by (simp add: inferencer_defs)
  have c: "map_of ?h (the_majTupleType (majority_scan ?h)) = Some 3"
    by (simp add: inferencer_defs)
  have t': "isTupleType (the_majTupleType (majority_scan ?g))"
    by (simp add: inferencer_defs)
  have c': "map_of ?g (the_majTupleType (majority_scan ?g)) = Some 13"
    by (simp add: inferencer_defs)
  have "optionizeTuple ?h 5 (ddiv (double_of_int 9) (double_of_int 10)) (majority_scan ?h)
      = Inr (Tuple [Option I64])"
    using super_tuple_replacement
      [where numSamples = 5 and threshold = "ddiv (double_of_int 9) (double_of_int 10)", OF t c]
    by (simp add: inferencer_defs double_defs)
  moreover have "optionizeTuple ?g 20 (Finite 5854679515581645 (- 53)) (majority_scan ?g)
      = Inr (Tuple [I64])"
    using super_tuple_replacement
      [where numSamples = 20 and threshold = "Finite 5854679515581645 (- 53)", OF t' c']
    by (simp add: inferencer_defs double_defs)
  ultimately show ?thesis by simp
qed

section \<open>Python objects and the interpreter state\<close>

text \<open>
  The values of the host runtime that the file inspects through the CPython API. A
  Python \<open>int\<close> is unbounded; a Python \<open>float\<close> is a C \<open>double\<close>, kept as its 64-bit
  pattern; a Python \<open>str\<close> is its sequence of code points. \<open>Py_True\<close> and \<open>Py_False\<close>
  are \<open>PyBool True\<close> and \<open>PyBool False\<close>.
\<close>

datatype pyobj =
    PyNone
  | PyBool bool
  | PyLong int
  | PyFloat "64 word"
  | PyUnicode "nat list"
  | PyTuple "pyobj list"
  | PyList "pyobj list"
  | PyDict "(pyobj \<times> pyobj) list"

fun PyBool_Check :: "pyobj \<Rightarrow> bool" where
  "PyBool_Check (PyBool b) = True"
| "PyBool_Check _ = False"

fun PyLong_CheckExact :: "pyobj \<Rightarrow> bool" where
  "PyLong_CheckExact (PyLong v) = True"
| "PyLong_CheckExact _ = False"

fun PyFloat_CheckExact :: "pyobj \<Rightarrow> bool" where
  "PyFloat_CheckExact (PyFloat d) = True"
| "PyFloat_CheckExact _ = False"

fun PyUnicode_Check :: "pyobj \<Rightarrow> bool" where
  "PyUnicode_Check (PyUnicode cs) = True"
| "PyUnicode_Check _ = False"

fun PyTuple_Check :: "pyobj \<Rightarrow> bool" where
  "PyTuple_Check (PyTuple xs) = True"
| "PyTuple_Check _ = False"

fun PyDict_Check :: "pyobj \<Rightarrow> bool" where
  "PyDict_Check (PyDict kvs) = True"
| "PyDict_Check _ = False"

fun PyTuple_Size :: "pyobj \<Rightarrow> nat" where
  "PyTuple_Size (PyTuple xs) = length xs"
| "PyTuple_Size _ = 0"

fun PyTuple_GET_ITEM :: "pyobj \<Rightarrow> nat \<Rightarrow> pyobj" where
  "PyTuple_GET_ITEM (PyTuple xs) j = xs ! j"
| "PyTuple_GET_ITEM _ j = PyNone"

text \<open>
  A \<open>PyObject*\<close> is an identity, not a value. The pointers the file stores or
  reference-counts are elements of the input list, values found in a dictionary element
  of the input list, and the \<open>None\<close> singleton.
\<close>

datatype objref = ListItem nat | DictValue nat "nat list" | NoneObject

text \<open>
  The state the file reads and writes besides the partitions: the member
  \<open>_badParallelizeObjects\<close>, the interpreter's error indicator (\<open>PyErr_Occurred\<close>,
  \<open>PyErr_Clear\<close>), the reference-count operations performed (\<open>Py_XINCREF\<close>, \<open>Py_INCREF\<close>,
  \<open>Py_XDECREF\<close>, each logged with the pointer it is applied to), and the pending-signal
  flag that \<open>check_interrupted\<close> polls.
\<close>

record pystate =
  badParallelizeObjects :: "(nat \<times> objref) list"
  error_indicator :: bool
  incref_log :: "objref list"
  decref_log :: "objref list"
  interrupt_flag :: bool

definition emplace_back :: "nat \<Rightarrow> objref \<Rightarrow> pystate \<Rightarrow> pystate" where
  "emplace_back i r s = s\<lparr>badParallelizeObjects := badParallelizeObjects s @ [(i, r)]\<rparr>"

definition PyErr_Occurred :: "pystate \<Rightarrow> bool" where
  "PyErr_Occurred s = error_indicator s"

definition PyErr_Clear :: "pystate \<Rightarrow> pystate" where
  "PyErr_Clear s = s\<lparr>error_indicator := False\<rparr>"

definition Py_XINCREF :: "objref \<Rightarrow> pystate \<Rightarrow> pystate" where
  "Py_XINCREF r s = s\<lparr>incref_log := incref_log s @ [r]\<rparr>"

definition Py_XDECREF :: "objref \<Rightarrow> pystate \<Rightarrow> pystate" where
  "Py_XDECREF r s = s\<lparr>decref_log := decref_log s @ [r]\<rparr>"

definition fits_int64 :: "int \<Rightarrow> bool" where
  "fits_int64 v \<longleftrightarrow> - (2 ^ 63) \<le> v \<and> v < 2 ^ 63"

text \<open>
  \<open>PyLong_AsLongLong\<close> of the CPython API: the value when it fits a \<open>long long\<close>;
  otherwise it returns -1 and sets the error indicator (an \<open>OverflowError\<close>).
\<close>

fun PyLong_AsLongLong :: "pyobj \<Rightarrow> pystate \<Rightarrow> 64 word \<times> pystate" where
  "PyLong_AsLongLong (PyLong v) s =
     (if fits_int64 v then (word_of_int v, s) else (- 1, s\<lparr>error_indicator := True\<rparr>))"
| "PyLong_AsLongLong (PyBool b) s = (if b then 1 else 0, s)"
| "PyLong_AsLongLong _ s = (- 1, s\<lparr>error_indicator := True\<rparr>)"

text \<open>
  \<open>PyUnicode_GET_SIZE\<close> is the number of code units of the wide-character form of the
  string (code points, with a 4-byte \<open>wchar_t\<close>). \<open>PyUnicode_AsUTF8\<close> returns a pointer
  to the NUL-terminated UTF-8 encoding (\<open>utf8_bytes\<close>), or \<open>NULL\<close> with an error set when
  the string cannot be encoded: a Python \<open>str\<close> may hold lone surrogates (code points
  \<open>D800\<close> to \<open>DFFF\<close>), which have no UTF-8 encoding.
\<close>

definition utf8_char :: "nat \<Rightarrow> 8 word list" where
  "utf8_char c =
     (if c < 128 then [of_nat c]
      else if c < 2048 then [of_nat (192 + c div 64), of_nat (128 + c mod 64)]
      else if c < 65536 then
        [of_nat (224 + c div 4096), of_nat (128 + (c div 64) mod 64), of_nat (128 + c mod 64)]
      else
        [of_nat (240 + c div 262144), of_nat (128 + (c div 4096) mod 64),
         of_nat (128 + (c div 64) mod 64), of_nat (128 + c mod 64)])"

definition utf8_bytes :: "nat list \<Rightarrow> 8 word list" where
  "utf8_bytes cs = concat (map utf8_char cs) @ [0]"

definition encodable :: "nat \<Rightarrow> bool" where
  "encodable c \<longleftrightarrow> c < 0xD800 \<or> (0xDFFF < c \<and> c \<le> 0x10FFFF)"

definition PyUnicode_AsUTF8 :: "nat list \<Rightarrow> 8 word list option" where
  "PyUnicode_AsUTF8 cs = (if list_all encodable cs then Some (utf8_bytes cs) else None)"

section \<open>Partitions and raw memory\<close>

text \<open>
  A partition's buffer is byte-addressed memory, from the address \<open>lockWriteRaw\<close>
  returns (offset 0). The file writes it through \<open>int64_t*\<close>, \<open>double*\<close> and
  \<open>uint8_t*\<close> pointers and \<open>memcpy\<close>, and never checks a bound itself, so the buffer
  is a total function and \<open>capacity\<close> is the number the encoders compare with. 64-bit
  stores are little-endian. The class \<open>Partition\<close> and the driver are declared
  elsewhere; the allocator is a parameter of the model.
\<close>

type_synonym memory = "nat \<Rightarrow> 8 word"

definition store64 :: "memory \<Rightarrow> nat \<Rightarrow> 64 word \<Rightarrow> memory" where
  "store64 m a w =
     (\<lambda>x. if a \<le> x \<and> x < a + 8 then ucast (drop_bit (8 * (x - a)) w) else m x)"

definition load64 :: "memory \<Rightarrow> nat \<Rightarrow> 64 word" where
  "load64 m a =
     ucast (m a) OR push_bit 8 (ucast (m (a + 1))) OR push_bit 16 (ucast (m (a + 2)))
     OR push_bit 24 (ucast (m (a + 3))) OR push_bit 32 (ucast (m (a + 4)))
     OR push_bit 40 (ucast (m (a + 5))) OR push_bit 48 (ucast (m (a + 6)))
     OR push_bit 56 (ucast (m (a + 7)))"

definition memcpy :: "memory \<Rightarrow> nat \<Rightarrow> 8 word list \<Rightarrow> nat \<Rightarrow> memory" where
  "memcpy m dst src n = (\<lambda>x. if dst \<le> x \<and> x < dst + n then src ! (x - dst) else m x)"

record partition =
  capacity :: nat
  mem :: memory
  write_locked :: bool

definition lockWriteRaw :: "partition \<Rightarrow> partition" where
  "lockWriteRaw p = p\<lparr>write_locked := True\<rparr>"

definition unlockWrite :: "partition \<Rightarrow> partition" where
  "unlockWrite p = p\<lparr>write_locked := False\<rparr>"

text \<open>
  What the encoders take from outside the file: the member constant \<open>allocMinSize\<close>,
  the driver's \<open>allocWritablePartition\<close> (by requested minimal size), the machine's
  conversion of an \<open>int64_t\<close> to a \<open>double\<close>, the number \<open>PyUnicode_GET_SIZE\<close> reads
  from an object that is not a string (the macro does not check its argument), and the
  output of \<open>makeTypeStr\<close> for a tuple type. The orchestrator and the slow path take
  further: \<open>python::mapPythonClassToTuplexType\<close> and
  \<open>python::tupleElementsHaveSimpleTypes\<close>; the ceiling of \<open>sampleSize\<close>; \<open>std::sort\<close>
  under the \<open>isSubclass\<close> comparator; the iteration orders of \<open>std::map\<close> over
  \<open>python::Type\<close> and of \<open>std::unordered_map\<close> over strings (each a rearrangement of
  the entries or keys it is given); the three options read from the context; the
  serialized length and bytes of a \<open>Row\<close> built from a tuple; and whether the host
  delivers an interrupt signal before the poll of iteration \<open>i\<close> of the slow loop.
\<close>

record env =
  allocMinSize :: nat
  allocWritablePartition :: "nat \<Rightarrow> partition"
  int64_to_double :: "64 word \<Rightarrow> 64 word"
  wild_unicode_size :: "pyobj \<Rightarrow> nat"
  makeTypeStr :: "Type \<Rightarrow> char list \<times> bool"
  mapPythonClassToTuplexType :: "pyobj \<Rightarrow> Type"
  tupleElementsHaveSimpleTypes :: "Type \<Rightarrow> bool"
  sample_ceiling :: nat
  sort_types :: "(Type \<times> int) list \<Rightarrow> (Type \<times> int) list"
  map_order :: "(Type \<times> int) list \<Rightarrow> (Type \<times> int) list"
  unordered_order :: "nat list list \<Rightarrow> nat list list"
  AUTO_UPCAST_NUMBERS :: bool
  NORMALCASE_THRESHOLD :: double
  OPTIONAL_THRESHOLD :: double
  serializedLength :: "pyobj \<Rightarrow> nat"
  serializeToMemory :: "pyobj \<Rightarrow> 8 word list"
  signal_before_poll :: "nat \<Rightarrow> bool"

text \<open>
  Modelled from the spec: the class \<open>Row\<close> and \<open>python::pythonToRow\<close> are declared
  outside the file. A row handed to the backend is kept as the Python value it was
  converted from and the row type it was converted under.
\<close>

datatype row = Row pyobj Type

text \<open>
  The backend's \<open>fromPartitions\<close>, \<open>parallelize\<close> (of rows) and \<open>makeError\<close> build the
  dataset; they are constructors here. Column names are strings, kept as code point
  sequences like the Python strings they are compared with.
\<close>

datatype dataset =
    FromPartitions Type "partition list" "nat list list"
  | FromRows "row list" "nat list list"
  | ErrorDataSet string

text \<open>
  The local variables every fast encoder keeps across its loop: the finished
  partitions, the current one (\<open>rawPtr\<close> is its offset 0), the write cursor \<open>ptr\<close> as an
  offset into the current buffer, and \<open>numBytesSerialized\<close>; with them the interpreter
  state.
\<close>

record transfer =
  partitions :: "partition list"
  cur_partition :: partition
  ptr :: nat
  numBytesSerialized :: nat
  py :: pystate

text \<open>
  \<open>allocWritablePartition\<close>, \<open>lockWriteRaw\<close>, \<open>*rawPtr = 0\<close> and the cursor placed behind
  the header word, as each encoder does before its loop and again when the capacity is
  exhausted (after \<open>unlockWrite\<close> and \<open>push_back\<close> of the full partition).
\<close>

definition open_partition :: "env \<Rightarrow> nat \<Rightarrow> partition" where
  "open_partition e minSize =
     (let p = lockWriteRaw (allocWritablePartition e minSize)
      in p\<lparr>mem := store64 (mem p) 0 0\<rparr>)"

definition start_transfer :: "env \<Rightarrow> nat \<Rightarrow> pystate \<Rightarrow> transfer" where
  "start_transfer e minSize s =
     \<lparr>partitions = [], cur_partition = open_partition e minSize, ptr = 8,
      numBytesSerialized = 0, py = s\<rparr>"

definition next_partition :: "env \<Rightarrow> nat \<Rightarrow> transfer \<Rightarrow> transfer" where
  "next_partition e minSize x =
     x\<lparr>partitions := partitions x @ [unlockWrite (cur_partition x)],
       cur_partition := open_partition e minSize, ptr := 8, numBytesSerialized := 0\<rparr>"

definition poke64 :: "nat \<Rightarrow> 64 word \<Rightarrow> transfer \<Rightarrow> transfer" where
  "poke64 a w x = x\<lparr>cur_partition := (cur_partition x)\<lparr>mem := store64 (mem (cur_partition x)) a w\<rparr>\<rparr>"

definition numRows :: "partition \<Rightarrow> 64 word" where
  "numRows p = load64 (mem p) 0"

definition inc_numRows :: "transfer \<Rightarrow> transfer" where
  "inc_numRows x = poke64 0 (numRows (cur_partition x) + 1) x"

definition quarantine :: "nat \<Rightarrow> transfer \<Rightarrow> transfer" where
  "quarantine i x = x\<lparr>py := emplace_back i (ListItem i) (py x)\<rparr>"

definition finish_transfer :: "Type \<Rightarrow> nat list list \<Rightarrow> transfer \<Rightarrow> dataset \<times> pystate" where
  "finish_transfer rowType columns x =
     (FromPartitions rowType (partitions x @ [unlockWrite (cur_partition x)]) columns, py x)"

section \<open>Loops over the input list\<close>

text \<open>
  Every encoder loops with \<open>for(unsigned i = 0; i < numElements; ++i)\<close>, where
  \<open>numElements\<close> is a \<open>size_t\<close> or \<open>Py_ssize_t\<close>: the 32-bit counter wraps, so the loop
  ends only for fewer than \<open>2^32\<close> elements. \<open>for_unsigned\<close> is the loop without an
  early exit, \<open>for_unsigned_return\<close> the loop whose body may leave the function: by a
  \<open>return\<close>, or because the process faults.
\<close>

partial_function (option) for_unsigned ::
  "nat \<Rightarrow> (nat \<Rightarrow> 's \<Rightarrow> 's) \<Rightarrow> 32 word \<Rightarrow> 's \<Rightarrow> 's option" where
  "for_unsigned numElements body i s =
     (if unat i < numElements then for_unsigned numElements body (i + 1) (body (unat i) s)
      else Some s)"

partial_function (option) for_unsigned_return ::
  "nat \<Rightarrow> (nat \<Rightarrow> 's \<Rightarrow> 'r + 's) \<Rightarrow> 32 word \<Rightarrow> 's \<Rightarrow> ('r + 's) option" where
  "for_unsigned_return numElements body i s =
     (if unat i < numElements then
        (case body (unat i) s of
           Inl r \<Rightarrow> Some (Inl r)
         | Inr s' \<Rightarrow> for_unsigned_return numElements body (i + 1) s')
      else Some (Inr s))"

fun run_body :: "(nat \<Rightarrow> 's \<Rightarrow> 'r + 's) \<Rightarrow> nat list \<Rightarrow> 's \<Rightarrow> 'r + 's" where
  "run_body body [] s = Inr s"
| "run_body body (i # is) s =
     (case body i s of Inl r \<Rightarrow> Inl r | Inr s' \<Rightarrow> run_body body is s')"

lemma for_unsigned_from:
  "n < 2 ^ 32 \<Longrightarrow> unat i \<le> n \<Longrightarrow> for_unsigned n body i s = Some (fold body [unat i..<n] s)"
proof (induction "n - unat i" arbitrary: i s)
  case 0
  then show ?case by (subst for_unsigned.simps) simp
next
  case (Suc k)
  then have lt: "unat i < n" by simp
  then have u: "unat (i + 1) = Suc (unat i)"
    using Suc.prems(1) by (simp add: unat_word_ariths)
  have l: "[unat i..<n] = unat i # [Suc (unat i)..<n]"
    using lt by (simp add: upt_conv_Cons)
  have "for_unsigned n body (i + 1) (body (unat i) s)
          = Some (fold body [unat (i + 1)..<n] (body (unat i) s))"
    using Suc.hyps(1) [of "i + 1"] Suc.hyps(2) Suc.prems u lt by simp
  then show ?case using lt l u by (subst for_unsigned.simps) simp
qed

lemma for_unsigned_fold:
  "n < 2 ^ 32 \<Longrightarrow> for_unsigned n body 0 s = Some (fold body [0..<n] s)"
  using for_unsigned_from [of n 0 body s] by simp

lemma for_unsigned_return_from:
  "n < 2 ^ 32 \<Longrightarrow> unat i \<le> n \<Longrightarrow>
   for_unsigned_return n body i s = Some (run_body body [unat i..<n] s)"
proof (induction "n - unat i" arbitrary: i s)
  case 0
  then show ?case by (subst for_unsigned_return.simps) simp
next
  case (Suc k)
  then have lt: "unat i < n" by simp
  then have u: "unat (i + 1) = Suc (unat i)"
    using Suc.prems(1) by (simp add: unat_word_ariths)
  have l: "[unat i..<n] = unat i # [Suc (unat i)..<n]"
    using lt by (simp add: upt_conv_Cons)
  show ?case
  proof (cases "body (unat i) s")
    case (Inl r)
    then show ?thesis using lt l by (subst for_unsigned_return.simps) simp
  next
    case (Inr s')
    have "for_unsigned_return n body (i + 1) s' = Some (run_body body [unat (i + 1)..<n] s')"
      using Suc.hyps(1) [of "i + 1" s'] Suc.hyps(2) Suc.prems u lt by simp
    then show ?thesis using lt l Inr u by (subst for_unsigned_return.simps) simp
  qed
qed

lemma for_unsigned_return_run:
  "n < 2 ^ 32 \<Longrightarrow> for_unsigned_return n body 0 s = Some (run_body body [0..<n] s)"
  using for_unsigned_return_from [of n 0 body s] by simp

section \<open>Fast encoders for scalars\<close>

abbreviation Py_True :: pyobj where
  "Py_True \<equiv> PyBool True"

abbreviation Py_False :: pyobj where
  "Py_False \<equiv> PyBool False"

fun PyFloat_AS_DOUBLE :: "pyobj \<Rightarrow> 64 word" where
  "PyFloat_AS_DOUBLE (PyFloat d) = d"
| "PyFloat_AS_DOUBLE _ = 0"

text \<open>The \<open>double\<close> values 1.0 and 0.0 that \<open>(double)(obj == Py_True)\<close> yields.\<close>

definition double_of_bool :: "bool \<Rightarrow> 64 word" where
  "double_of_bool b = (if b then 0x3FF0000000000000 else 0)"

text \<open>
  The common tail of the scalar encoders: \<open>*ptr = val; ptr++; *rawPtr = *rawPtr + 1;
  numBytesSerialized += 8\<close>.
\<close>

definition write_slot :: "64 word \<Rightarrow> transfer \<Rightarrow> transfer" where
  "write_slot val x =
     (let x1 = poke64 (ptr x) val x;
          x2 = x1\<lparr>ptr := ptr x1 + 8\<rparr>;
          x3 = inc_numRows x2
      in x3\<lparr>numBytesSerialized := numBytesSerialized x3 + 8\<rparr>)"

text \<open>The capacity check at the head of the scalar loops (lines 59-67, 129-137, 346-354).\<close>

definition ensure_slot :: "env \<Rightarrow> transfer \<Rightarrow> transfer" where
  "ensure_slot e x =
     (if capacity (cur_partition x) < numBytesSerialized x + 8
      then next_partition e (max 8 (allocMinSize e)) x else x)"

text \<open>\<open>fastF64Parallelize\<close>, lines 31-102.\<close>

definition fastF64_step :: "env \<Rightarrow> pyobj list \<Rightarrow> bool \<Rightarrow> nat \<Rightarrow> transfer \<Rightarrow> transfer" where
  "fastF64_step e L upcast i x0 =
     (let obj = L ! i; x = ensure_slot e x0 in
      if PyFloat_CheckExact obj then write_slot (PyFloat_AS_DOUBLE obj) x
      else if upcast \<and> (obj = Py_True \<or> obj = Py_False \<or> PyLong_CheckExact obj) then
        (if obj = Py_True \<or> obj = Py_False then write_slot (double_of_bool (obj = Py_True)) x
         else
           (let r = PyLong_AsLongLong obj (py x); val = int64_to_double e (fst r) in
            if PyErr_Occurred (snd r) then quarantine i (x\<lparr>py := PyErr_Clear (snd r)\<rparr>)
            else write_slot val (x\<lparr>py := snd r\<rparr>)))
      else quarantine i x)"

definition fastF64Parallelize ::
  "env \<Rightarrow> pyobj list \<Rightarrow> nat list list \<Rightarrow> bool \<Rightarrow> pystate \<Rightarrow> (dataset \<times> pystate) option" where
  "fastF64Parallelize e L columns upcast s =
     (if length L = 0 then Some (FromPartitions (Tuple [F64]) [] columns, s)
      else map_option (finish_transfer (Tuple [F64]) columns)
             (for_unsigned (length L) (fastF64_step e L upcast) 0
                (start_transfer e (allocMinSize e) s)))"

text \<open>\<open>fastI64Parallelize\<close>, lines 104-168.\<close>

definition fastI64_step :: "env \<Rightarrow> pyobj list \<Rightarrow> bool \<Rightarrow> nat \<Rightarrow> transfer \<Rightarrow> transfer" where
  "fastI64_step e L upcast i x0 =
     (let obj = L ! i; x = ensure_slot e x0 in
      if PyLong_CheckExact obj then
        (let r = PyLong_AsLongLong obj (py x) in
         if PyErr_Occurred (snd r) then quarantine i (x\<lparr>py := PyErr_Clear (snd r)\<rparr>)
         else write_slot (fst r) (x\<lparr>py := snd r\<rparr>))
      else if upcast \<and> (obj = Py_True \<or> obj = Py_False) then
        write_slot (if obj = Py_True then 1 else 0) x
      else quarantine i x)"

definition fastI64Parallelize ::
  "env \<Rightarrow> pyobj list \<Rightarrow> nat list list \<Rightarrow> bool \<Rightarrow> pystate \<Rightarrow> (dataset \<times> pystate) option" where
  "fastI64Parallelize e L columns upcast s =
     (if length L = 0 then Some (FromPartitions (Tuple [I64]) [] columns, s)
      else map_option (finish_transfer (Tuple [I64]) columns)
             (for_unsigned (length L) (fastI64_step e L upcast) 0
                (start_transfer e (max 8 (allocMinSize e)) s)))"

text \<open>\<open>fastBoolParallelize\<close>, lines 320-371.\<close>

definition fastBool_step :: "env \<Rightarrow> pyobj list \<Rightarrow> nat \<Rightarrow> transfer \<Rightarrow> transfer" where
  "fastBool_step e L i x0 =
     (let obj = L ! i; x = ensure_slot e x0 in
      if PyBool_Check obj then write_slot (if obj = Py_True then 1 else 0) x
      else quarantine i x)"

definition fastBoolParallelize ::
  "env \<Rightarrow> pyobj list \<Rightarrow> nat list list \<Rightarrow> pystate \<Rightarrow> (dataset \<times> pystate) option" where
  "fastBoolParallelize e L columns s =
     (if length L = 0 then Some (FromPartitions (Tuple [BOOLEAN]) [] columns, s)
      else map_option (finish_transfer (Tuple [BOOLEAN]) columns)
             (for_unsigned (length L) (fastBool_step e L) 0
                (start_transfer e (max 8 (allocMinSize e)) s)))"

section \<open>Fast encoders for strings and tuples of scalars\<close>

text \<open>
  \<open>PyUnicode_GET_SIZE\<close> as the file applies it: to a string it is the number of code
  points; the macro does not test its argument, so on any other object it reads
  whatever the environment finds there.
\<close>

fun PyUnicode_GET_SIZE :: "env \<Rightarrow> pyobj \<Rightarrow> nat" where
  "PyUnicode_GET_SIZE e (PyUnicode cs) = length cs"
| "PyUnicode_GET_SIZE e obj = wild_unicode_size e obj"

fun utf8_of :: "pyobj \<Rightarrow> 8 word list option" where
  "utf8_of (PyUnicode cs) = PyUnicode_AsUTF8 cs"
| "utf8_of _ = None"

text \<open>
  Neither encoder tests the pointer \<open>PyUnicode_AsUTF8\<close> returns before it hands it to
  \<open>memcpy\<close> (lines 275 and 431). Reading at least one byte through \<open>NULL\<close> is a fault:
  the process does not go on, and the encoder has no result. \<open>finish_or_fault\<close> is the
  end of an encoder whose loop may fault: the dataset from the partitions when the loop
  ended, no result when it did not end or faulted.
\<close>

datatype fault = NullRead

definition finish_or_fault ::
  "Type \<Rightarrow> nat list list \<Rightarrow> (fault + transfer) option \<Rightarrow> (dataset \<times> pystate) option" where
  "finish_or_fault rowType columns r =
     (case r of
        Some (Inr x) \<Rightarrow> Some (finish_transfer rowType columns x)
      | _ \<Rightarrow> None)"

text \<open>
  The descriptor word \<open>varLenOffset | (varFieldSize << 32)\<close>, computed on \<open>size_t\<close> and
  stored as an \<open>int64_t\<close>.
\<close>

definition info_field :: "nat \<Rightarrow> nat \<Rightarrow> 64 word" where
  "info_field varLenOffset varFieldSize = of_nat varLenOffset OR push_bit 32 (of_nat varFieldSize)"

definition poke_bytes :: "nat \<Rightarrow> 8 word list \<Rightarrow> nat \<Rightarrow> transfer \<Rightarrow> transfer" where
  "poke_bytes dst src n x =
     x\<lparr>cur_partition := (cur_partition x)\<lparr>mem := memcpy (mem (cur_partition x)) dst src n\<rparr>\<rparr>"

text \<open>
  \<open>fastStrParallelize\<close>, lines 373-445. The \<open>assert(len == strlen(utf8ptr))\<close> of line 421
  is compiled out in a release build and is not part of the model. The step is \<open>Inl\<close>
  when the \<open>memcpy\<close> of line 431 reads through \<open>NULL\<close>.
\<close>

definition fastStr_step :: "env \<Rightarrow> pyobj list \<Rightarrow> nat \<Rightarrow> transfer \<Rightarrow> fault + transfer" where
  "fastStr_step e L i x0 =
     (let obj = L ! i in
      if PyUnicode_Check obj then
        (let len = PyUnicode_GET_SIZE e obj;
             utf8ptr = utf8_of obj;
             requiredBytes = 8 * 2 + len + 1;
             x = (if capacity (cur_partition x0) < numBytesSerialized x0 + requiredBytes
                  then next_partition e (max (allocMinSize e) requiredBytes) x0 else x0);
             varFieldSize = len + 1;
             varLenOffset = 2 * 8;
             x1 = poke64 (ptr x) (info_field varLenOffset varFieldSize) x;
             x2 = poke64 (ptr x + 8) (of_nat varFieldSize) x1
         in case utf8ptr of
              None \<Rightarrow> Inl NullRead
            | Some bytes \<Rightarrow>
                (let x3 = poke_bytes (ptr x + 8 * 2) bytes (len + 1) x2;
                     x4 = x3\<lparr>ptr := ptr x3 + requiredBytes\<rparr>;
                     x5 = inc_numRows x4
                 in Inr (x5\<lparr>numBytesSerialized := numBytesSerialized x5 + requiredBytes\<rparr>)))
      else Inr (quarantine i x0))"

definition fastStrParallelize ::
  "env \<Rightarrow> pyobj list \<Rightarrow> nat list list \<Rightarrow> pystate \<Rightarrow> (dataset \<times> pystate) option" where
  "fastStrParallelize e L columns s =
     (if length L = 0 then Some (FromPartitions (Tuple [STRING]) [] columns, s)
      else finish_or_fault (Tuple [STRING]) columns
             (for_unsigned_return (length L) (fastStr_step e L) 0
                (start_transfer e (allocMinSize e) s)))"

text \<open>
  \<open>fastMixedSimpleTypeTupleTransfer\<close>, lines 170-318. \<open>serialize_fields\<close> is the field
  loop of lines 233-282 over the indices \<open>j\<close>. It ends in one of three ways:
  \<open>BadElement\<close> is the jump to \<open>bad_element\<close>, with the state reached at the jump (memory
  already written stays written); \<open>EndOfFields\<close> is the normal end of the loop with
  \<open>rowVarFieldSizes\<close>; \<open>Faulted\<close> is the \<open>memcpy\<close> of line 275 reading through \<open>NULL\<close>. A
  character other than \<open>b\<close>, \<open>i\<close>, \<open>f\<close>, \<open>s\<close> matches no \<open>case\<close> of the \<open>switch\<close>.
\<close>

datatype fields_end = Faulted | BadElement transfer | EndOfFields transfer nat

fun serialize_fields ::
  "env \<Rightarrow> nat \<Rightarrow> char list \<Rightarrow> pyobj \<Rightarrow> nat list \<Rightarrow> nat \<Rightarrow> transfer \<Rightarrow> fields_end" where
  "serialize_fields e numTupleElements typeStr obj [] rowVarFieldSizes x =
     EndOfFields x rowVarFieldSizes"
| "serialize_fields e numTupleElements typeStr obj (j # js) rowVarFieldSizes x =
     (let el = PyTuple_GET_ITEM obj j in
      if typeStr ! j = CHR ''b'' then
        (if \<not> PyBool_Check el then BadElement x
         else
           (let x1 = poke64 (ptr x) (if el = Py_True then 1 else 0) x
            in serialize_fields e numTupleElements typeStr obj js rowVarFieldSizes
                 (x1\<lparr>ptr := ptr x1 + 8\<rparr>)))
      else if typeStr ! j = CHR ''i'' then
        (if \<not> PyLong_CheckExact el then BadElement x
         else
           (let r = PyLong_AsLongLong el (py x);
                x1 = poke64 (ptr x) (fst r) (x\<lparr>py := snd r\<rparr>)
            in serialize_fields e numTupleElements typeStr obj js rowVarFieldSizes
                 (x1\<lparr>ptr := ptr x1 + 8\<rparr>)))
      else if typeStr ! j = CHR ''f'' then
        (if \<not> PyFloat_CheckExact el then BadElement x
         else
           (let x1 = poke64 (ptr x) (PyFloat_AS_DOUBLE el) x
            in serialize_fields e numTupleElements typeStr obj js rowVarFieldSizes
                 (x1\<lparr>ptr := ptr x1 + 8\<rparr>)))
      else if typeStr ! j = CHR ''s'' then
        (if \<not> PyUnicode_Check el then BadElement x
         else
           (let utf8ptr = utf8_of el;
                len = PyUnicode_GET_SIZE e el;
                varFieldSize = len + 1;
                varLenOffset = (numTupleElements + 1 - j) * 8 + rowVarFieldSizes;
                x1 = poke64 (ptr x) (info_field varLenOffset varFieldSize) x
            in case utf8ptr of
                 None \<Rightarrow> Faulted
               | Some bytes \<Rightarrow>
                   (let x2 = poke_bytes (ptr x + varLenOffset) bytes (len + 1) x1
                    in serialize_fields e numTupleElements typeStr obj js
                         (rowVarFieldSizes + varFieldSize) (x2\<lparr>ptr := ptr x2 + 8\<rparr>))))
      else serialize_fields e numTupleElements typeStr obj js rowVarFieldSizes x)"

text \<open>Lines 212-217: the bytes a candidate row needs.\<close>

definition tuple_requiredBytes :: "env \<Rightarrow> nat \<Rightarrow> char list \<Rightarrow> bool \<Rightarrow> pyobj \<Rightarrow> nat" where
  "tuple_requiredBytes e numTupleElements typeStr varLenField obj =
     (numTupleElements + (if varLenField then 1 else 0)) * 8
     + (if varLenField
        then sum_list (map (\<lambda>j. if typeStr ! j = CHR ''s''
                                 then PyUnicode_GET_SIZE e (PyTuple_GET_ITEM obj j) + 1 else 0)
                         [0..<numTupleElements])
        else 0)"

definition fastTuple_step ::
  "env \<Rightarrow> nat \<Rightarrow> char list \<Rightarrow> bool \<Rightarrow> pyobj list \<Rightarrow> nat \<Rightarrow> transfer \<Rightarrow> fault + transfer" where
  "fastTuple_step e numTupleElements typeStr varLenField L i x0 =
     (let obj = L ! i;
          check = PyTuple_Check obj;
          check = (if check then PyTuple_Size obj = numTupleElements else False) in
      if check then
        (let requiredBytes = tuple_requiredBytes e numTupleElements typeStr varLenField obj;
             x = (if capacity (cur_partition x0) < numBytesSerialized x0 + requiredBytes
                  then next_partition e (max (allocMinSize e) requiredBytes) x0 else x0);
             rowStartPtr = ptr x in
         case serialize_fields e numTupleElements typeStr obj [0..<numTupleElements] 0 x of
           EndOfFields x1 rowVarFieldSizes \<Rightarrow>
             (let x2 = (if varLenField then poke64 (ptr x1) (of_nat rowVarFieldSizes) x1 else x1);
                  x3 = inc_numRows x2
              in Inr (x3\<lparr>numBytesSerialized := numBytesSerialized x3 + requiredBytes,
                         ptr := rowStartPtr + requiredBytes\<rparr>))
         | BadElement x1 \<Rightarrow> Inr (quarantine i (x1\<lparr>ptr := rowStartPtr\<rparr>))
         | Faulted \<Rightarrow> Inl NullRead)
      else Inr (quarantine i x0))"

definition fastMixedSimpleTypeTupleTransfer ::
  "env \<Rightarrow> pyobj list \<Rightarrow> Type \<Rightarrow> nat list list \<Rightarrow> pystate \<Rightarrow> (dataset \<times> pystate) option" where
  "fastMixedSimpleTypeTupleTransfer e L majType columns s =
     (let numTupleElements = length (parameters majType) in
      if length L = 0 then Some (FromPartitions majType [] columns, s)
      else
        (let typeStr = fst (makeTypeStr e majType);
             varLenField = snd (makeTypeStr e majType)
         in finish_or_fault majType columns
              (for_unsigned_return (length L)
                 (fastTuple_step e numTupleElements typeStr varLenField L) 0
                 (start_transfer e (allocMinSize e) s))))"

section \<open>Raw memory\<close>

lemma load64_store64_same: "load64 (store64 m a w) a = w"
proof (rule bit_word_eqI)
  fix n assume n: "n < LENGTH(64)"
  then have "n < 64" by simp
  then consider "n < 8" | "8 \<le> n \<and> n < 16" | "16 \<le> n \<and> n < 24" | "24 \<le> n \<and> n < 32"
    | "32 \<le> n \<and> n < 40" | "40 \<le> n \<and> n < 48" | "48 \<le> n \<and> n < 56" | "56 \<le> n \<and> n < 64"
    by linarith
  then show "bit (load64 (store64 m a w) a) n = bit w n"
    by cases (auto simp add: load64_def store64_def bit_simps)
qed

lemma load64_store64_other:
  "b + 8 \<le> a \<or> a + 8 \<le> b \<Longrightarrow> load64 (store64 m a w) b = load64 m b"
  by (auto simp add: load64_def store64_def)

section \<open>Scalar encoders: what the partitions hold\<close>

text \<open>
  Reading a partition back: its header word counts 8-byte rows; \<open>slots\<close> are the rows it
  announces, read from the payload area that starts at byte 8.
\<close>

definition slots :: "partition \<Rightarrow> 64 word list" where
  "slots p = map (\<lambda>k. load64 (mem p) (8 + 8 * k)) [0..<unat (numRows p)]"

definition decoded_slots :: "transfer \<Rightarrow> 64 word list" where
  "decoded_slots x = concat (map slots (partitions x)) @ slots (cur_partition x)"

definition slot_inv :: "transfer \<Rightarrow> bool" where
  "slot_inv x \<longleftrightarrow> ptr x = 8 + numBytesSerialized x
     \<and> numBytesSerialized x = 8 * unat (numRows (cur_partition x))"

lemma numRows_open_partition [simp]: "numRows (open_partition e n) = 0"
  by (simp add: numRows_def open_partition_def Let_def load64_store64_same)

lemma slots_open_partition [simp]: "slots (open_partition e n) = []"
  by (simp add: slots_def)

lemma slots_unlockWrite [simp]: "slots (unlockWrite p) = slots p"
  by (simp add: slots_def unlockWrite_def numRows_def)

lemma start_transfer_slots:
  "slot_inv (start_transfer e n s)" "decoded_slots (start_transfer e n s) = []"
  "py (start_transfer e n s) = s" "numRows (cur_partition (start_transfer e n s)) = 0"
  by (simp_all add: slot_inv_def decoded_slots_def start_transfer_def)

lemma ensure_slot_slots:
  assumes "slot_inv x"
  shows "slot_inv (ensure_slot e x)" "decoded_slots (ensure_slot e x) = decoded_slots x"
    "py (ensure_slot e x) = py x"
    "unat (numRows (cur_partition (ensure_slot e x))) \<le> unat (numRows (cur_partition x))"
  using assms by (simp_all add: slot_inv_def decoded_slots_def ensure_slot_def next_partition_def)

lemma write_slot_slots:
  assumes "slot_inv x" and "unat (numRows (cur_partition x)) < 2 ^ 32"
  shows "slot_inv (write_slot v x)" "decoded_slots (write_slot v x) = decoded_slots x @ [v]"
    "py (write_slot v x) = py x"
    "unat (numRows (cur_partition (write_slot v x))) = Suc (unat (numRows (cur_partition x)))"
proof -
  let ?p = "cur_partition x" and ?k = "unat (numRows (cur_partition x))"
  have pt: "ptr x = 8 + 8 * ?k" using assms(1) by (simp add: slot_inv_def)
  have m: "mem (cur_partition (write_slot v x))
             = store64 (store64 (mem ?p) (ptr x) v) 0 (numRows ?p + 1)"
    by (simp add: write_slot_def Let_def poke64_def inc_numRows_def numRows_def
        load64_store64_other pt)
  have nr: "numRows (cur_partition (write_slot v x)) = numRows ?p + 1"
    by (simp add: numRows_def m load64_store64_same)
  have un: "unat (numRows ?p + 1) = Suc ?k"
    using assms(2) by (simp add: unat_word_ariths)
  show 4: "unat (numRows (cur_partition (write_slot v x))) = Suc ?k"
    by (simp add: nr un)
  show "slot_inv (write_slot v x)"
    using assms(1) 4 by (simp add: slot_inv_def) (simp add: write_slot_def Let_def poke64_def inc_numRows_def)
  show "py (write_slot v x) = py x"
    by (simp add: write_slot_def Let_def poke64_def inc_numRows_def)
  have old: "load64 (mem (cur_partition (write_slot v x))) (8 + 8 * k) = load64 (mem ?p) (8 + 8 * k)"
    if "k < ?k" for k
    using that by (simp add: m load64_store64_other pt)
  have new: "load64 (mem (cur_partition (write_slot v x))) (8 + 8 * ?k) = v"
    by (simp add: m load64_store64_other load64_store64_same pt)
  have "slots (cur_partition (write_slot v x)) = slots ?p @ [v]"
    using old new by (simp add: slots_def 4)
  moreover have "partitions (write_slot v x) = partitions x"
    by (simp add: write_slot_def Let_def poke64_def inc_numRows_def)
  ultimately show "decoded_slots (write_slot v x) = decoded_slots x @ [v]"
    by (simp add: decoded_slots_def)
qed

lemma quarantine_slots:
  "slot_inv (quarantine i x) = slot_inv x" "decoded_slots (quarantine i x) = decoded_slots x"
  "numRows (cur_partition (quarantine i x)) = numRows (cur_partition x)"
  by (simp_all add: slot_inv_def decoded_slots_def quarantine_def)


text \<open>
  Which elements the scalar encoders write, and the slot they write for them; every
  other element is put on the quarantine list with its index.
\<close>

fun i64_accepts :: "bool \<Rightarrow> pyobj \<Rightarrow> bool" where
  "i64_accepts upcast (PyLong v) = fits_int64 v"
| "i64_accepts upcast (PyBool b) = upcast"
| "i64_accepts upcast _ = False"

fun i64_slot :: "pyobj \<Rightarrow> 64 word" where
  "i64_slot (PyLong v) = word_of_int v"
| "i64_slot (PyBool b) = (if b then 1 else 0)"
| "i64_slot _ = 0"

fun f64_accepts :: "bool \<Rightarrow> pyobj \<Rightarrow> bool" where
  "f64_accepts upcast (PyFloat d) = True"
| "f64_accepts upcast (PyBool b) = upcast"
| "f64_accepts upcast (PyLong v) = (upcast \<and> fits_int64 v)"
| "f64_accepts upcast _ = False"

fun f64_slot :: "env \<Rightarrow> pyobj \<Rightarrow> 64 word" where
  "f64_slot e (PyFloat d) = d"
| "f64_slot e (PyBool b) = double_of_bool b"
| "f64_slot e (PyLong v) = int64_to_double e (word_of_int v)"
| "f64_slot e _ = 0"

definition rejected :: "(pyobj \<Rightarrow> bool) \<Rightarrow> pyobj list \<Rightarrow> nat \<Rightarrow> (nat \<times> objref) list" where
  "rejected accepts L n = map (\<lambda>i. (i, ListItem i)) (filter (\<lambda>i. \<not> accepts (L ! i)) [0..<n])"

definition quarantined :: "(nat \<times> objref) list \<Rightarrow> pystate \<Rightarrow> pystate" where
  "quarantined q s = s\<lparr>badParallelizeObjects := badParallelizeObjects s @ q\<rparr>"

lemma rejected_0 [simp]: "rejected accepts L 0 = []"
  by (simp add: rejected_def)

lemma rejected_Suc:
  "rejected accepts L (Suc n) = rejected accepts L n @ (if accepts (L ! n) then [] else [(n, ListItem n)])"
  by (simp add: rejected_def)

lemma quarantined_Nil [simp]: "quarantined [] s = s"
  by (simp add: quarantined_def)

lemma emplace_back_quarantined:
  "emplace_back i r (quarantined q s) = quarantined (q @ [(i, r)]) s"
  by (simp add: quarantined_def emplace_back_def)

lemma filter_take_Suc:
  "n < length L \<Longrightarrow> filter P (take (Suc n) L) = filter P (take n L) @ (if P (L ! n) then [L ! n] else [])"
  by (simp add: take_Suc_conv_app_nth)

lemma clear_after_overflow:
  "\<not> error_indicator s \<Longrightarrow> PyErr_Clear (s\<lparr>error_indicator := True\<rparr>) = s"
  by (simp add: PyErr_Clear_def)

lemma py_ensure_slot [simp]: "py (ensure_slot e x) = py x"
  by (simp add: ensure_slot_def next_partition_def)

lemma ensure_slot_py_same [simp]: "(ensure_slot e x)\<lparr>py := py x\<rparr> = ensure_slot e x"
  by (simp add: ensure_slot_def next_partition_def)

lemma scalar_outcomes:
  assumes "slot_inv x" and "unat (numRows (cur_partition x)) \<le> n" and "n < 2 ^ 32"
  shows "slot_inv (write_slot v (ensure_slot e x))"
    and "decoded_slots (write_slot v (ensure_slot e x)) = decoded_slots x @ [v]"
    and "py (write_slot v (ensure_slot e x)) = py x"
    and "unat (numRows (cur_partition (write_slot v (ensure_slot e x)))) \<le> Suc n"
    and "slot_inv (write_slot v (ensure_slot e x\<lparr>py := py x\<rparr>))"
    and "decoded_slots (write_slot v (ensure_slot e x\<lparr>py := py x\<rparr>)) = decoded_slots x @ [v]"
    and "py (write_slot v (ensure_slot e x\<lparr>py := py x\<rparr>)) = py x"
    and "unat (numRows (cur_partition (write_slot v (ensure_slot e x\<lparr>py := py x\<rparr>)))) \<le> Suc n"
    and "slot_inv (quarantine n (ensure_slot e x))"
    and "decoded_slots (quarantine n (ensure_slot e x)) = decoded_slots x"
    and "py (quarantine n (ensure_slot e x)) = emplace_back n (ListItem n) (py x)"
    and "unat (numRows (cur_partition (quarantine n (ensure_slot e x)))) \<le> Suc n"
    and "slot_inv (quarantine n (ensure_slot e x\<lparr>py := py x\<rparr>))"
    and "decoded_slots (quarantine n (ensure_slot e x\<lparr>py := py x\<rparr>)) = decoded_slots x"
    and "py (quarantine n (ensure_slot e x\<lparr>py := py x\<rparr>)) = emplace_back n (ListItem n) (py x)"
    and "unat (numRows (cur_partition (quarantine n (ensure_slot e x\<lparr>py := py x\<rparr>)))) \<le> Suc n"
proof -
  let ?y = "ensure_slot e x"
  have y: "slot_inv ?y" "decoded_slots ?y = decoded_slots x" "py ?y = py x"
    "unat (numRows (cur_partition ?y)) \<le> n"
    using ensure_slot_slots [OF assms(1), of e] assms(2) by auto
  have lt: "unat (numRows (cur_partition ?y)) < 2 ^ 32"
    using y(4) assms(3) by simp
  show w: "slot_inv (write_slot v ?y)" "decoded_slots (write_slot v ?y) = decoded_slots x @ [v]"
    "py (write_slot v ?y) = py x"
    "unat (numRows (cur_partition (write_slot v ?y))) \<le> Suc n"
    using write_slot_slots [OF y(1) lt, of v] y by auto
  show "slot_inv (write_slot v (?y\<lparr>py := py x\<rparr>))"
    "decoded_slots (write_slot v (?y\<lparr>py := py x\<rparr>)) = decoded_slots x @ [v]"
    "py (write_slot v (?y\<lparr>py := py x\<rparr>)) = py x"
    "unat (numRows (cur_partition (write_slot v (?y\<lparr>py := py x\<rparr>)))) \<le> Suc n"
    using w by simp_all
  show q: "slot_inv (quarantine n ?y)" "decoded_slots (quarantine n ?y) = decoded_slots x"
    "py (quarantine n ?y) = emplace_back n (ListItem n) (py x)"
    "unat (numRows (cur_partition (quarantine n ?y))) \<le> Suc n"
    using y by (simp_all add: quarantine_slots) (simp add: quarantine_def)
  show "slot_inv (quarantine n (?y\<lparr>py := py x\<rparr>))"
    "decoded_slots (quarantine n (?y\<lparr>py := py x\<rparr>)) = decoded_slots x"
    "py (quarantine n (?y\<lparr>py := py x\<rparr>)) = emplace_back n (ListItem n) (py x)"
    "unat (numRows (cur_partition (quarantine n (?y\<lparr>py := py x\<rparr>)))) \<le> Suc n"
    using q by simp_all
qed

definition scalar_step_ok ::
  "(nat \<Rightarrow> transfer \<Rightarrow> transfer) \<Rightarrow> (pyobj \<Rightarrow> bool) \<Rightarrow> (pyobj \<Rightarrow> 64 word) \<Rightarrow> pyobj list
     \<Rightarrow> nat \<Rightarrow> transfer \<Rightarrow> bool" where
  "scalar_step_ok step accepts slot L n x \<longleftrightarrow>
     slot_inv (step n x)
     \<and> decoded_slots (step n x) = decoded_slots x @ (if accepts (L ! n) then [slot (L ! n)] else [])
     \<and> py (step n x) = (if accepts (L ! n) then py x else emplace_back n (ListItem n) (py x))
     \<and> unat (numRows (cur_partition (step n x))) \<le> Suc n"

lemma fastI64_step_ok:
  assumes "slot_inv x" and "unat (numRows (cur_partition x)) \<le> n" and "n < 2 ^ 32"
    and "\<not> error_indicator (py x)"
  shows "scalar_step_ok (fastI64_step e L upcast) (i64_accepts upcast) i64_slot L n x"
  unfolding scalar_step_ok_def
  using assms(4) scalar_outcomes [OF assms(1-3), where e = e]
  by (cases "L ! n")
    (simp_all add: fastI64_step_def Let_def PyErr_Occurred_def clear_after_overflow)

lemma fastF64_step_ok:
  assumes "slot_inv x" and "unat (numRows (cur_partition x)) \<le> n" and "n < 2 ^ 32"
    and "\<not> error_indicator (py x)"
  shows "scalar_step_ok (fastF64_step e L upcast) (f64_accepts upcast) (f64_slot e) L n x"
  unfolding scalar_step_ok_def
  using assms(4) scalar_outcomes [OF assms(1-3), where e = e]
  by (cases "L ! n")
    (simp_all add: fastF64_step_def Let_def PyErr_Occurred_def clear_after_overflow)


lemma scalar_fold:
  assumes step: "\<And>n x. slot_inv x \<Longrightarrow> unat (numRows (cur_partition x)) \<le> n \<Longrightarrow> n < 2 ^ 32
                   \<Longrightarrow> \<not> error_indicator (py x) \<Longrightarrow> scalar_step_ok step accepts slot L n x"
    and "n \<le> length L" and "length L < 2 ^ 32" and "\<not> error_indicator s"
    and "slot_inv x0" and "decoded_slots x0 = []" and "py x0 = s"
    and "numRows (cur_partition x0) = 0"
  shows "slot_inv (fold step [0..<n] x0)
         \<and> decoded_slots (fold step [0..<n] x0) = map slot (filter accepts (take n L))
         \<and> py (fold step [0..<n] x0) = quarantined (rejected accepts L n) s
         \<and> unat (numRows (cur_partition (fold step [0..<n] x0))) \<le> n"
  using assms(2)
proof (induction n)
  case 0
  then show ?case using assms(5-8) by simp
next
  case (Suc n)
  let ?x = "fold step [0..<n] x0"
  have ih: "slot_inv ?x" "decoded_slots ?x = map slot (filter accepts (take n L))"
    "py ?x = quarantined (rejected accepts L n) s" "unat (numRows (cur_partition ?x)) \<le> n"
    using Suc by simp_all
  have "\<not> error_indicator (py ?x)"
    using ih(3) assms(4) by (simp add: quarantined_def)
  then have "scalar_step_ok step accepts slot L n ?x"
    using step [OF ih(1) ih(4)] Suc.prems assms(3) by simp
  then show ?case
    using ih Suc.prems
    by (simp add: scalar_step_ok_def filter_take_Suc rejected_Suc emplace_back_quarantined)
qed

lemma scalar_encoder:
  assumes step: "\<And>n x. slot_inv x \<Longrightarrow> unat (numRows (cur_partition x)) \<le> n \<Longrightarrow> n < 2 ^ 32
                   \<Longrightarrow> \<not> error_indicator (py x) \<Longrightarrow> scalar_step_ok step accepts slot L n x"
    and "length L < 2 ^ 32" and "\<not> error_indicator s"
  shows "\<exists>ps. map_option (finish_transfer T columns)
                 (for_unsigned (length L) step 0 (start_transfer e minSize s))
               = Some (FromPartitions T ps columns, quarantined (rejected accepts L (length L)) s)
             \<and> concat (map slots ps) = map slot (filter accepts L)"
proof -
  let ?x = "fold step [0..<length L] (start_transfer e minSize s)"
  have f: "decoded_slots ?x = map slot (filter accepts (take (length L) L))"
    "py ?x = quarantined (rejected accepts L (length L)) s"
    using scalar_fold [of step accepts slot L "length L" s "start_transfer e minSize s"]
      step assms(2,3) start_transfer_slots [of e minSize s]
    by simp_all
  have "concat (map slots (partitions ?x @ [unlockWrite (cur_partition ?x)])) = decoded_slots ?x"
    by (simp add: decoded_slots_def)
  then show ?thesis
    using f by (simp add: for_unsigned_fold [OF assms(2)] finish_transfer_def)
qed


text \<open>
  An environment for evaluating the model on concrete inputs: partitions of exactly the
  requested size with zeroed memory, a minimal partition size of 16 bytes (two 8-byte
  rows), and \<open>makeTypeStr\<close> mapping \<open>BOOLEAN\<close>, \<open>I64\<close>, \<open>F64\<close>, \<open>STRING\<close> to \<open>b\<close>,
  \<open>i\<close>, \<open>f\<close>, \<open>s\<close>. The conversion to \<open>double\<close> is given for the integers 0, 1 and 2.
  Values are classified as section 4.B of the specification describes (scalars directly,
  tuples by their elements); the orders are the identity; a row built from a tuple
  serializes to one zeroed 8-byte slot per field; no signal arrives.
\<close>

definition demo_partition :: "nat \<Rightarrow> partition" where
  "demo_partition n = \<lparr>capacity = n, mem = (\<lambda>a. 0), write_locked = False\<rparr>"

fun demo_type_char :: "Type \<Rightarrow> char" where
  "demo_type_char BOOLEAN = CHR ''b''"
| "demo_type_char I64 = CHR ''i''"
| "demo_type_char F64 = CHR ''f''"
| "demo_type_char STRING = CHR ''s''"
| "demo_type_char _ = CHR ''?''"

fun demo_classify :: "pyobj \<Rightarrow> Type" where
  "demo_classify PyNone = NULLVALUE"
| "demo_classify (PyBool b) = BOOLEAN"
| "demo_classify (PyLong v) = I64"
| "demo_classify (PyFloat d) = F64"
| "demo_classify (PyUnicode cs) = STRING"
| "demo_classify (PyTuple xs) = Tuple (map demo_classify xs)"
| "demo_classify (PyList xs) = (case xs of [] \<Rightarrow> List PYOBJECT | x # _ \<Rightarrow> List (demo_classify x))"
| "demo_classify (PyDict kvs) =
     (case kvs of [] \<Rightarrow> EMPTYDICT | kv # _ \<Rightarrow> Dict (demo_classify (fst kv)) (demo_classify (snd kv)))"

definition demo_env :: env where
  "demo_env =
     \<lparr>allocMinSize = 16,
      allocWritablePartition = demo_partition,
      int64_to_double = (\<lambda>w. if w = 1 then 0x3FF0000000000000
                               else if w = 2 then 0x4000000000000000 else 0),
      wild_unicode_size = (\<lambda>obj. 0),
      makeTypeStr = (\<lambda>t. (map demo_type_char (parameters t), STRING \<in> set (parameters t))),
      mapPythonClassToTuplexType = demo_classify,
      tupleElementsHaveSimpleTypes = (\<lambda>t. set (parameters t) \<subseteq> {BOOLEAN, I64, F64, STRING}),
      sample_ceiling = 1000,
      sort_types = (\<lambda>h. h),
      map_order = (\<lambda>h. h),
      unordered_order = (\<lambda>ks. ks),
      AUTO_UPCAST_NUMBERS = False,
      NORMALCASE_THRESHOLD = ddiv (double_of_int 9) (double_of_int 10),
      OPTIONAL_THRESHOLD = ddiv (double_of_int 7) (double_of_int 10),
      serializedLength = (\<lambda>obj. 8 * PyTuple_Size obj),
      serializeToMemory = (\<lambda>obj. replicate (8 * PyTuple_Size obj) 0),
      signal_before_poll = (\<lambda>i. False)\<rparr>"

definition clean_state :: pystate where
  "clean_state =
     \<lparr>badParallelizeObjects = [], error_indicator = False, incref_log = [], decref_log = [],
      interrupt_flag = False\<rparr>"

text \<open>
  Claim C8. With no Python error pending on entry and fewer than \<open>2^32\<close> elements, the
  I64 encoder and the F64 encoder return a dataset (the call is not aborted); the error
  indicator is clear on return; every element that is an exact \<open>int\<close> not fitting 64
  bits is on the quarantine list with its index (for F64 under \<open>upcast\<close>); and the
  encoders go on with the next element: the quarantine list gains exactly the rejected
  indices, in order, and the partitions hold exactly the slots of the accepted
  elements, in order.
\<close>

theorem int64_overflow_quarantined:
  assumes "length L < 2 ^ 32" and "\<not> error_indicator s"
  shows "(\<exists>ps s'. fastI64Parallelize e L columns upcast s
                     = Some (FromPartitions (Tuple [I64]) ps columns, s')
            \<and> \<not> error_indicator s'
            \<and> (\<forall>i v. i < length L \<and> L ! i = PyLong v \<and> \<not> fits_int64 v
                   \<longrightarrow> (i, ListItem i) \<in> set (badParallelizeObjects s'))
            \<and> s' = quarantined (rejected (i64_accepts upcast) L (length L)) s
            \<and> concat (map slots ps) = map i64_slot (filter (i64_accepts upcast) L))
       \<and> (\<exists>ps s'. fastF64Parallelize e L columns upcast s
                     = Some (FromPartitions (Tuple [F64]) ps columns, s')
            \<and> \<not> error_indicator s'
            \<and> (\<forall>i v. upcast \<and> i < length L \<and> L ! i = PyLong v \<and> \<not> fits_int64 v
                   \<longrightarrow> (i, ListItem i) \<in> set (badParallelizeObjects s'))
            \<and> s' = quarantined (rejected (f64_accepts upcast) L (length L)) s
            \<and> concat (map slots ps) = map (f64_slot e) (filter (f64_accepts upcast) L))"
proof -
  have mem: "(i, ListItem i) \<in> set (badParallelizeObjects (quarantined (rejected acc L (length L)) s))"
    if "i < length L" and "\<not> acc (L ! i)" for i and acc :: "pyobj \<Rightarrow> bool"
    using that by (simp add: quarantined_def rejected_def)
  have err: "\<not> error_indicator (quarantined q s)" for q
    using assms(2) by (simp add: quarantined_def)
  have i64: "\<exists>ps. fastI64Parallelize e L columns upcast s
                 = Some (FromPartitions (Tuple [I64]) ps columns,
                         quarantined (rejected (i64_accepts upcast) L (length L)) s)
               \<and> concat (map slots ps) = map i64_slot (filter (i64_accepts upcast) L)"
  proof (cases "L = []")
    case True
    then show ?thesis by (simp add: fastI64Parallelize_def)
  next
    case False
    then show ?thesis
      using scalar_encoder [of "fastI64_step e L upcast" "i64_accepts upcast" i64_slot L s
          "Tuple [I64]" columns e "max 8 (allocMinSize e)"]
        fastI64_step_ok assms
      by (simp add: fastI64Parallelize_def)
  qed
  have f64: "\<exists>ps. fastF64Parallelize e L columns upcast s
                 = Some (FromPartitions (Tuple [F64]) ps columns,
                         quarantined (rejected (f64_accepts upcast) L (length L)) s)
               \<and> concat (map slots ps) = map (f64_slot e) (filter (f64_accepts upcast) L)"
  proof (cases "L = []")
    case True
    then show ?thesis by (simp add: fastF64Parallelize_def)
  next
    case False
    then show ?thesis
      using scalar_encoder [of "fastF64_step e L upcast" "f64_accepts upcast" "f64_slot e" L s
          "Tuple [F64]" columns e "allocMinSize e"]
        fastF64_step_ok assms
      by (simp add: fastF64Parallelize_def)
  qed
  have a: "\<forall>i v. i < length L \<and> L ! i = PyLong v \<and> \<not> fits_int64 v
             \<longrightarrow> (i, ListItem i) \<in> set (badParallelizeObjects
                   (quarantined (rejected (i64_accepts upcast) L (length L)) s))"
    using mem [of _ "i64_accepts upcast"] by auto
  have b: "\<forall>i v. upcast \<and> i < length L \<and> L ! i = PyLong v \<and> \<not> fits_int64 v
             \<longrightarrow> (i, ListItem i) \<in> set (badParallelizeObjects
                   (quarantined (rejected (f64_accepts upcast) L (length L)) s))"
    using mem [of _ "f64_accepts upcast"] by auto
  show ?thesis
    using i64 f64 a b err by blast
qed

theorem int64_overflow_quarantined_witness:
  "(\<exists>ps s'. fastI64Parallelize demo_env [PyLong 1, PyLong (2 ^ 63), PyLong 2] [] True clean_state
              = Some (FromPartitions (Tuple [I64]) ps [], s')
        \<and> badParallelizeObjects s' = [(1, ListItem 1)] \<and> \<not> error_indicator s'
        \<and> concat (map slots ps) = [1, 2])
   \<and> (\<exists>ps s'. fastF64Parallelize demo_env [PyLong 1, PyLong (2 ^ 63), PyLong 2] [] True clean_state
              = Some (FromPartitions (Tuple [F64]) ps [], s')
        \<and> badParallelizeObjects s' = [(1, ListItem 1)] \<and> \<not> error_indicator s'
        \<and> concat (map slots ps) = [0x3FF0000000000000, 0x4000000000000000])"
proof -
  have l: "length [PyLong 1, PyLong (2 ^ 63), PyLong 2] < (2 :: nat) ^ 32" by simp
  have c: "\<not> error_indicator clean_state" by (simp add: clean_state_def)
  show ?thesis
    using int64_overflow_quarantined [OF l c, of demo_env "[]" True]
    by (auto simp: clean_state_def quarantined_def rejected_def fits_int64_def demo_env_def
        upt_rec)
qed


text \<open>
  Claim C10. In the fast tuple encoder an integer field is written without an overflow
  check: for a one-field tuple holding an exact \<open>int\<close> that does not fit 64 bits, the
  row is accepted (the quarantine list is unchanged and the partitions hold one row),
  its slot is \<open>-1\<close>, the value \<open>PyLong_AsLongLong\<close> returns on overflow, and the error
  indicator is left set; the scalar I64 encoder quarantines the same integer and clears
  the error.
\<close>

theorem tuple_int_overflow_accepted:
  assumes "makeTypeStr e (Tuple [I64]) = ([CHR ''i''], False)" and "\<not> fits_int64 v"
    and "\<not> error_indicator s"
  shows "(\<exists>ps s'. fastMixedSimpleTypeTupleTransfer e [PyTuple [PyLong v]] (Tuple [I64]) columns s
                    = Some (FromPartitions (Tuple [I64]) ps columns, s')
           \<and> badParallelizeObjects s' = badParallelizeObjects s
           \<and> error_indicator s'
           \<and> concat (map slots ps) = [- 1])
       \<and> (\<exists>ps s'. fastI64Parallelize e [PyLong v] columns upcast s
                    = Some (FromPartitions (Tuple [I64]) ps columns, s')
           \<and> badParallelizeObjects s' = badParallelizeObjects s @ [(0, ListItem 0)]
           \<and> \<not> error_indicator s'
           \<and> concat (map slots ps) = [])"
proof -
  have a: "\<exists>ps s'. fastMixedSimpleTypeTupleTransfer e [PyTuple [PyLong v]] (Tuple [I64]) columns s
                    = Some (FromPartitions (Tuple [I64]) ps columns, s')
           \<and> badParallelizeObjects s' = badParallelizeObjects s
           \<and> error_indicator s'
           \<and> concat (map slots ps) = [- 1]"
    using assms(1,2)
    apply (simp add: fastMixedSimpleTypeTupleTransfer_def for_unsigned_return_run
        finish_or_fault_def fastTuple_step_def
        tuple_requiredBytes_def Let_def start_transfer_def finish_transfer_def next_partition_def
        poke64_def inc_numRows_def)
    apply (simp add: slots_def numRows_def load64_store64_same load64_store64_other
        open_partition_def Let_def lockWriteRaw_def unlockWrite_def)
    done
  have b: "\<exists>ps s'. fastI64Parallelize e [PyLong v] columns upcast s
                    = Some (FromPartitions (Tuple [I64]) ps columns, s')
           \<and> badParallelizeObjects s' = badParallelizeObjects s @ [(0, ListItem 0)]
           \<and> \<not> error_indicator s'
           \<and> concat (map slots ps) = []"
    using assms(2,3)
    by (simp add: fastI64Parallelize_def for_unsigned_fold fastI64_step_def ensure_slot_def
        Let_def start_transfer_def finish_transfer_def next_partition_def quarantine_def
        emplace_back_def PyErr_Occurred_def PyErr_Clear_def)
  show ?thesis using a b by simp
qed

theorem tuple_int_overflow_accepted_witness:
  "(\<exists>ps s'. fastMixedSimpleTypeTupleTransfer demo_env [PyTuple [PyLong (2 ^ 63)]] (Tuple [I64]) []
               clean_state
              = Some (FromPartitions (Tuple [I64]) ps [], s')
        \<and> badParallelizeObjects s' = [] \<and> error_indicator s' \<and> concat (map slots ps) = [- 1])
   \<and> (\<exists>ps s'. fastI64Parallelize demo_env [PyLong (2 ^ 63)] [] False clean_state
              = Some (FromPartitions (Tuple [I64]) ps [], s')
        \<and> badParallelizeObjects s' = [(0, ListItem 0)] \<and> \<not> error_indicator s'
        \<and> concat (map slots ps) = [])"
proof -
  have m: "makeTypeStr demo_env (Tuple [I64]) = ([CHR ''i''], False)"
    by (simp add: demo_env_def)
  have f: "\<not> fits_int64 (2 ^ 63)" by (simp add: fits_int64_def)
  have c: "\<not> error_indicator clean_state" by (simp add: clean_state_def)
  show ?thesis
    using tuple_int_overflow_accepted [OF m f c, of "[]" False]
    by (simp add: clean_state_def)
qed


text \<open>
  Claim C9 at the one-element input list whose string is the single code point U+00E9
  (UTF-8 bytes \<open>C3 A9\<close>), for the string encoder and, as the one-field tuple, for the
  tuple encoder. The row is accepted; its descriptor has offset 16 and length 2,
  although the UTF-8 encoding with its trailing NUL has 3 bytes; the byte at descriptor
  offset + length - 1 (byte 25 of the partition, whose descriptor slot is at byte 8)
  is \<open>A9\<close>, not \<open>00\<close>.
\<close>

theorem str_descriptor_non_ascii:
  "(\<exists>ps s'. fastStrParallelize demo_env [PyUnicode [233]] [] clean_state
              = Some (FromPartitions (Tuple [STRING]) ps [], s')
     \<and> badParallelizeObjects s' = []
     \<and> numRows (last ps) = 1
     \<and> load64 (mem (last ps)) 8 = info_field 16 2
     \<and> mem (last ps) (8 + 16 + 2 - 1) = 0xA9)
   \<and> (\<exists>ps s'. fastMixedSimpleTypeTupleTransfer demo_env [PyTuple [PyUnicode [233]]]
                (Tuple [STRING]) [] clean_state
              = Some (FromPartitions (Tuple [STRING]) ps [], s')
     \<and> badParallelizeObjects s' = []
     \<and> numRows (last ps) = 1
     \<and> load64 (mem (last ps)) 8 = info_field 16 2
     \<and> mem (last ps) (8 + 16 + 2 - 1) = 0xA9)
   \<and> PyUnicode_AsUTF8 [233] = Some [0xC3, 0xA9, 0]
   \<and> info_field 16 2 AND 0xFFFFFFFF = 16 \<and> drop_bit 32 (info_field 16 2) = 2"
proof -
  have a: "\<exists>ps s'. fastStrParallelize demo_env [PyUnicode [233]] [] clean_state
              = Some (FromPartitions (Tuple [STRING]) ps [], s')
     \<and> badParallelizeObjects s' = []
     \<and> numRows (last ps) = 1
     \<and> load64 (mem (last ps)) 8 = info_field 16 2
     \<and> mem (last ps) (8 + 16 + 2 - 1) = 0xA9"
    apply (simp add: fastStrParallelize_def for_unsigned_return_run finish_or_fault_def
        demo_env_def fastStr_step_def
        Let_def start_transfer_def finish_transfer_def next_partition_def clean_state_def
        poke64_def poke_bytes_def inc_numRows_def PyUnicode_AsUTF8_def utf8_bytes_def
        utf8_char_def encodable_def)
    apply (simp add: numRows_def load64_store64_same load64_store64_other
        open_partition_def Let_def lockWriteRaw_def unlockWrite_def demo_partition_def)
    apply (simp add: memcpy_def store64_def load64_def info_field_def)
    done
  have b: "\<exists>ps s'. fastMixedSimpleTypeTupleTransfer demo_env [PyTuple [PyUnicode [233]]]
                (Tuple [STRING]) [] clean_state
              = Some (FromPartitions (Tuple [STRING]) ps [], s')
     \<and> badParallelizeObjects s' = []
     \<and> numRows (last ps) = 1
     \<and> load64 (mem (last ps)) 8 = info_field 16 2
     \<and> mem (last ps) (8 + 16 + 2 - 1) = 0xA9"
    apply (simp add: fastMixedSimpleTypeTupleTransfer_def for_unsigned_return_run
        finish_or_fault_def demo_env_def
        fastTuple_step_def tuple_requiredBytes_def
        Let_def start_transfer_def finish_transfer_def next_partition_def clean_state_def
        poke64_def poke_bytes_def inc_numRows_def PyUnicode_AsUTF8_def utf8_bytes_def
        utf8_char_def encodable_def)
    apply (simp add: numRows_def load64_store64_same load64_store64_other
        open_partition_def Let_def lockWriteRaw_def unlockWrite_def demo_partition_def)
    apply (simp add: memcpy_def store64_def load64_def info_field_def)
    done
  have c: "PyUnicode_AsUTF8 [233] = Some [0xC3, 0xA9, 0]"
    by (simp add: PyUnicode_AsUTF8_def utf8_bytes_def utf8_char_def encodable_def)
  have d: "info_field 16 2 AND 0xFFFFFFFF = 16" "drop_bit 32 (info_field 16 2) = 2"
    by (simp_all add: info_field_def)
  show ?thesis using a b c d by simp
qed


section \<open>Slow encoder\<close>

text \<open>
  Modelled from the spec: \<open>check_interrupted\<close> is declared in \<open>Signals.h\<close>, outside the
  file. Section 4.F has it poll the interrupt flag; line 489 says the signal is not
  cleared by the poll.
\<close>

definition check_interrupted :: "pystate \<Rightarrow> bool" where
  "check_interrupted s = interrupt_flag s"

text \<open>
  \<open>parallelizeAnyType\<close>, lines 464-519. Before each poll the host may have delivered a
  signal, which sets the flag. The loop state is the vector \<open>v\<close> and the interpreter
  state; \<open>Inl\<close> is the \<open>return\<close> of line 499.
\<close>

definition deliver_signal :: "env \<Rightarrow> nat \<Rightarrow> pystate \<Rightarrow> pystate" where
  "deliver_signal e i s = s\<lparr>interrupt_flag := interrupt_flag s \<or> signal_before_poll e i\<rparr>"

definition release_quarantine :: "pystate \<Rightarrow> pystate" where
  "release_quarantine s =
     (fold (\<lambda>t. Py_XDECREF (snd t)) (badParallelizeObjects s) s)\<lparr>badParallelizeObjects := []\<rparr>"

definition anyType_step ::
  "env \<Rightarrow> pyobj list \<Rightarrow> Type \<Rightarrow> nat \<Rightarrow> row list \<times> pystate
     \<Rightarrow> (dataset \<times> pystate) + (row list \<times> pystate)" where
  "anyType_step e L majType i vs =
     (let v = fst vs; s = deliver_signal e i (snd vs) in
      if check_interrupted s then Inl (ErrorDataSet ''interrupted transfer'', release_quarantine s)
      else
        (let item = L ! i;
             s1 = Py_XINCREF (ListItem i) s;
             t = mapPythonClassToTuplexType e item
         in if isSubOptionType t majType then Inr (v @ [Row item majType], s1)
            else Inr (v, emplace_back i (ListItem i) s1)))"

definition parallelizeAnyType ::
  "env \<Rightarrow> pyobj list \<Rightarrow> Type \<Rightarrow> nat list list \<Rightarrow> pystate \<Rightarrow> (dataset \<times> pystate) option" where
  "parallelizeAnyType e L majType columns s =
     (case for_unsigned_return (length L) (anyType_step e L majType) 0 ([], s) of
        None \<Rightarrow> None
      | Some (Inl r) \<Rightarrow> Some r
      | Some (Inr vs) \<Rightarrow> Some (FromRows (fst vs) columns, snd vs))"

section \<open>Dictionary rows\<close>

fun PyDict_Size :: "pyobj \<Rightarrow> nat" where
  "PyDict_Size (PyDict kvs) = length kvs"
| "PyDict_Size _ = 0"

fun PyDict_Items :: "pyobj \<Rightarrow> (pyobj \<times> pyobj) list" where
  "PyDict_Items (PyDict kvs) = kvs"
| "PyDict_Items _ = []"

text \<open>\<open>PyDict_GetItemString\<close>: the value stored under the string key, or \<open>NULL\<close>.\<close>

definition PyDict_GetItemString :: "pyobj \<Rightarrow> nat list \<Rightarrow> pyobj option" where
  "PyDict_GetItemString obj c = map_of (PyDict_Items obj) (PyUnicode c)"

text \<open>
  The loop of lines 563-579 over the columns: the state is \<open>good\<close>, the items placed in
  \<open>tupleObj\<close> so far, and the interpreter state. \<open>Py_XINCREF\<close> does nothing on \<open>NULL\<close>.
\<close>

definition dict_column_step ::
  "pyobj \<Rightarrow> nat \<Rightarrow> nat list \<Rightarrow> bool \<times> pyobj list \<times> pystate \<Rightarrow> bool \<times> pyobj list \<times> pystate" where
  "dict_column_step obj i c acc =
     (let good = fst acc; items = fst (snd acc); s = snd (snd acc) in
      case PyDict_GetItemString obj c of
        Some item \<Rightarrow> (good, items @ [item], Py_XINCREF (DictValue i c) s)
      | None \<Rightarrow>
          (False, items @ [PyNone], Py_XINCREF NoneObject (emplace_back i (ListItem i) s)))"

text \<open>
  \<open>strDictParallelize\<close>, lines 521-622, with its local \<open>allocMinSize = 100\<close>. An element
  that is not a dictionary falls through the \<open>if\<close> of line 551 and the loop goes on.
\<close>

definition strDict_step ::
  "env \<Rightarrow> Type \<Rightarrow> nat list list \<Rightarrow> pyobj list \<Rightarrow> nat \<Rightarrow> transfer \<Rightarrow> transfer" where
  "strDict_step e rowType columns L i x =
     (let obj = L ! i in
      if PyDict_Check obj then
        (let numDictElements = PyDict_Size obj in
         if numDictElements \<noteq> length (parameters rowType) then quarantine i x
         else
           (let acc = fold (dict_column_step obj i) columns (True, [], py x);
                good = fst acc;
                tupleObj = PyTuple (fst (snd acc));
                x1 = x\<lparr>py := snd (snd acc)\<rparr>
            in if \<not> good then x1
               else if mapPythonClassToTuplexType e tupleObj \<noteq> rowType then quarantine i x1
               else
                 (let requiredBytes = serializedLength e tupleObj;
                      x2 = (if capacity (cur_partition x1) < numBytesSerialized x1 + 100
                            then next_partition e 100 x1 else x1);
                      x3 = poke_bytes (ptr x2) (serializeToMemory e tupleObj)
                             (length (serializeToMemory e tupleObj)) x2;
                      x4 = x3\<lparr>ptr := ptr x3 + requiredBytes\<rparr>;
                      x5 = inc_numRows x4
                  in x5\<lparr>numBytesSerialized := numBytesSerialized x5 + requiredBytes\<rparr>)))
      else x)"

definition strDictParallelize ::
  "env \<Rightarrow> pyobj list \<Rightarrow> Type \<Rightarrow> nat list list \<Rightarrow> pystate \<Rightarrow> (dataset \<times> pystate) option" where
  "strDictParallelize e L rowType columns s =
     (if length L = 0 then Some (FromPartitions rowType [] columns, s)
      else map_option (finish_transfer rowType columns)
             (for_unsigned (length L) (strDict_step e rowType columns L) 0
                (start_transfer e 100 s)))"


section \<open>Type inference over a sample\<close>

text \<open>
  Modelled from the spec: \<open>sampleSize\<close> is declared outside the file. Section 4.B: the
  smaller of the input length and a fixed ceiling.
\<close>

definition sampleSize :: "env \<Rightarrow> pyobj list \<Rightarrow> nat" where
  "sampleSize e L = min (length L) (sample_ceiling e)"

text \<open>
  \<open>inferType\<close>, lines 868-895. \<open>count_type\<close> is the body of the loop: \<open>mTypes[t] = 1\<close> for
  a new type, \<open>mTypes[t] += 1\<close> otherwise; the map is read in its iteration order.
\<close>

definition count_type :: "Type \<Rightarrow> (Type \<times> int) list \<Rightarrow> (Type \<times> int) list" where
  "count_type t mTypes =
     (case map_of mTypes t of
        None \<Rightarrow> mTypes @ [(t, 1)]
      | Some c \<Rightarrow> AList.update t (c + 1) mTypes)"

definition inferType :: "env \<Rightarrow> pyobj list \<Rightarrow> (exn + Type) option" where
  "inferType e L =
     (let numSample = sampleSize e L in
      case for_unsigned numSample (\<lambda>i. count_type (mapPythonClassToTuplexType e (L ! i))) 0 [] of
        None \<Rightarrow> None
      | Some mTypes \<Rightarrow>
          Some (buildRowTypeFromSamples (sort_types e) (map_order e mTypes) (int numSample)
                  (OPTIONAL_THRESHOLD e)))"

section \<open>Dict column projector\<close>

text \<open>
  \<open>inferColumnsFromDictObjects\<close>, lines 897-1005. The two unordered maps \<open>counts\<close> and
  \<open>cols\<close> are association lists; \<open>cols\<close> keeps each value with the pointer it was read
  from. Keys are converted by \<open>python::PyString_AsString\<close>.
\<close>

fun PyString_AsString :: "pyobj \<Rightarrow> nat list" where
  "PyString_AsString (PyUnicode cs) = cs"
| "PyString_AsString _ = []"

record column_sample =
  counts :: "(nat list \<times> nat) list"
  cols :: "(nat list \<times> (objref \<times> pyobj) list) list"
  num_dicts :: nat
  sample_py :: pystate

definition lookup_default :: "'v \<Rightarrow> ('k \<times> 'v) list \<Rightarrow> 'k \<Rightarrow> 'v" where
  "lookup_default d m k = (case map_of m k of None \<Rightarrow> d | Some v \<Rightarrow> v)"

text \<open>Lines 923-933, for one key and value that \<open>PyDict_Next\<close> yields for element \<open>i\<close>.\<close>

definition sample_key_step :: "nat \<Rightarrow> pyobj \<times> pyobj \<Rightarrow> column_sample \<Rightarrow> column_sample" where
  "sample_key_step i kv a =
     (if PyUnicode_Check (fst kv) then
        (let skey = PyString_AsString (fst kv);
             a1 = (if map_of (counts a) skey = None
                   then a\<lparr>counts := counts a @ [(skey, 0)], cols := cols a @ [(skey, [])]\<rparr>
                   else a);
             a2 = a1\<lparr>counts := AList.update skey (lookup_default 0 (counts a1) skey + 1) (counts a1)\<rparr>;
             a3 = a2\<lparr>sample_py := Py_XINCREF (DictValue i skey) (sample_py a2)\<rparr>
         in a3\<lparr>cols := AList.update skey
                            (lookup_default [] (cols a3) skey @ [(DictValue i skey, snd kv)])
                            (cols a3)\<rparr>)
      else a)"

text \<open>Lines 911-935, for element \<open>i\<close> of the sample.\<close>

definition sample_item_step :: "pyobj list \<Rightarrow> nat \<Rightarrow> column_sample \<Rightarrow> column_sample" where
  "sample_item_step L i a =
     (let item = L ! i;
          a1 = a\<lparr>sample_py := Py_XINCREF (ListItem i) (sample_py a)\<rparr>
      in if PyDict_Check item
         then fold (sample_key_step i) (PyDict_Items item) (a1\<lparr>num_dicts := num_dicts a1 + 1\<rparr>)
         else a1)"

text \<open>
  Lines 948-960: for each normal column a list of its values is built (one more
  reference each) and handed to \<open>inferType\<close>.
\<close>

fun infer_columns ::
  "env \<Rightarrow> (nat list \<times> (objref \<times> pyobj) list) list \<Rightarrow> nat list list \<Rightarrow> pystate
     \<Rightarrow> (exn + (nat list \<times> Type) list \<times> pystate) option" where
  "infer_columns e tbl [] s = Some (Inr ([], s))"
| "infer_columns e tbl (c # cs) s =
     (let vals = lookup_default [] tbl c;
          s1 = fold (\<lambda>rv. Py_XINCREF (fst rv)) vals s in
      case inferType e (map snd vals) of
        None \<Rightarrow> None
      | Some (Inl ex) \<Rightarrow> Some (Inl ex)
      | Some (Inr t) \<Rightarrow>
          (case infer_columns e tbl cs s1 of
             None \<Rightarrow> None
           | Some (Inl ex) \<Rightarrow> Some (Inl ex)
           | Some (Inr ms) \<Rightarrow> Some (Inr (AList.update c t (fst ms), snd ms))))"

text \<open>
  Lines 963-1001, the backup when no column was inferred: the first element that is a
  dictionary with only \<open>str\<close> keys gives the schema; without one the function throws.
\<close>

definition all_strs :: "pyobj \<Rightarrow> bool" where
  "all_strs item = list_all (\<lambda>kv. PyUnicode_Check (fst kv)) (PyDict_Items item)"

definition first_row_schema :: "env \<Rightarrow> pyobj list \<Rightarrow> exn + (nat list \<times> Type) list" where
  "first_row_schema e L =
     (case find (\<lambda>item. PyDict_Check item \<and> all_strs item) L of
        None \<Rightarrow>
          Inl (RuntimeError
            ''type inference from dictionary objects failed. Please provide manually a schema.'')
      | Some item \<Rightarrow>
          Inr (fold (\<lambda>kv m. AList.update (PyString_AsString (fst kv))
                               (mapPythonClassToTuplexType e (snd kv)) m)
                 (PyDict_Items item) []))"

text \<open>
  The loops of this function count with an \<open>int\<close>; incrementing it past \<open>2^31 - 1\<close> is
  undefined, so the model gives no result for lists of \<open>2^31\<close> or more elements. The
  test of line 942 is made in \<open>double\<close>: the product of the threshold and the converted
  \<open>num_dicts\<close>, rounded, its \<open>ceil\<close>, and the converted count compared with it.
\<close>

definition inferColumnsFromDictObjects ::
  "env \<Rightarrow> pyobj list \<Rightarrow> double \<Rightarrow> pystate \<Rightarrow> (exn + (nat list \<times> Type) list \<times> pystate) option" where
  "inferColumnsFromDictObjects e L normalThreshold s =
     (if length L \<ge> 2 ^ 31 then None
      else
        (let numSample = sampleSize e L;
             a = fold (sample_item_step L) [0..<numSample]
                   \<lparr>counts = [], cols = [], num_dicts = 0, sample_py = s\<rparr>;
             columns = filter (\<lambda>k. dle (dceil (dmul normalThreshold
                                                      (double_of_int (int (num_dicts a)))))
                                         (double_of_int (int (lookup_default 0 (counts a) k))))
                         (unordered_order e (map fst (counts a)))
         in case infer_columns e (cols a) columns (sample_py a) of
              None \<Rightarrow> None
            | Some (Inl ex) \<Rightarrow> Some (Inl ex)
            | Some (Inr ms) \<Rightarrow>
                if fst ms = [] then
                  (case first_row_schema e L of
                     Inl ex \<Rightarrow> Some (Inl ex)
                   | Inr m \<Rightarrow> Some (Inr (m, snd ms)))
                else Some (Inr ms)))"

section \<open>Ingestion orchestrator\<close>

text \<open>
  \<open>parallelize\<close>, lines 624-764. The column list is taken as \<open>extractFromListOfStrings\<close>
  returns it and the schema as \<open>python::decodePythonSchema\<close> decodes it (\<open>None\<close> when the
  caller gave none); both are declared elsewhere. \<open>parallelize_transfer\<close> is the function
  up to line 722, with the type the data was transferred under; \<open>parallelize\<close> adds
  the clearing of the quarantine list of lines 744-754. Logging is left out. A thrown
  exception is \<open>Inl\<close>: the function has no handler. \<open>desc\<close> is the printed name of a type.
  The result is \<open>None\<close> when the function does not return: a loop that does not end, or a
  fault in an encoder. The helpers declared outside the file (the two decoders above,
  the element access of \<open>boost::python\<close>, the classification of a value, the conversion to
  a \<open>Row\<close>, the backend and the allocator) are taken where they return: what they may
  throw is outside the model. A Python error left pending in the interpreter state when
  the function returns is \<open>error_indicator\<close> of the returned state.
\<close>

definition is_str_dict :: "Type \<Rightarrow> bool" where
  "is_str_dict t \<longleftrightarrow>
     (isDictionaryType t \<and> t \<noteq> EMPTYDICT \<and> t \<noteq> GENERICDICT) \<and> keyType t = STRING"

definition returned ::
  "Type \<Rightarrow> (dataset \<times> pystate) option \<Rightarrow> (exn + dataset \<times> Type \<times> pystate) option" where
  "returned t r = map_option (\<lambda>ds. Inr (fst ds, t, snd ds)) r"

definition parallelize_transfer ::
  "env \<Rightarrow> (Type \<Rightarrow> string) \<Rightarrow> pyobj list \<Rightarrow> nat list list \<Rightarrow> Type option \<Rightarrow> pystate
     \<Rightarrow> (exn + dataset \<times> Type \<times> pystate) option" where
  "parallelize_transfer e desc L columns schema s =
     (let s0 = s\<lparr>badParallelizeObjects := []\<rparr>;
          autoUpcast = AUTO_UPCAST_NUMBERS e in
      case (case schema of Some t \<Rightarrow> Some (Inr t) | None \<Rightarrow> inferType e L) of
        None \<Rightarrow> None
      | Some (Inl ex) \<Rightarrow> Some (Inl ex)
      | Some (Inr majType) \<Rightarrow>
          if is_str_dict majType then
            (case inferColumnsFromDictObjects e L (NORMALCASE_THRESHOLD e) s0 of
               None \<Rightarrow> None
             | Some (Inl ex) \<Rightarrow> Some (Inl ex)
             | Some (Inr ms) \<Rightarrow>
                 (let dictTypes = fst ms;
                      columns1 = (if columns = [] then unordered_order e (map fst dictTypes)
                                  else columns);
                      types = map (\<lambda>c. case map_of dictTypes c of
                                           None \<Rightarrow> PYOBJECT | Some t \<Rightarrow> t) columns1;
                      majType1 = Tuple types
                  in returned majType1 (strDictParallelize e L majType1 columns1 (snd ms))))
          else if majType = BOOLEAN then returned majType (fastBoolParallelize e L columns s0)
          else if majType = I64 then returned majType (fastI64Parallelize e L columns autoUpcast s0)
          else if majType = F64 then returned majType (fastF64Parallelize e L columns autoUpcast s0)
          else if majType = STRING then returned majType (fastStrParallelize e L columns s0)
          else if isTupleType majType then
            (if tupleElementsHaveSimpleTypes e majType
             then returned majType (fastMixedSimpleTypeTupleTransfer e L majType columns s0)
             else returned majType (parallelizeAnyType e L majType columns s0))
          else if isDictionaryType majType \<or> majType = GENERICDICT then
            returned majType (parallelizeAnyType e L majType columns s0)
          else if isOptionType majType then
            returned majType (parallelizeAnyType e L majType columns s0)
          else if majType = NULLVALUE then
            returned majType (parallelizeAnyType e L majType columns s0)
          else if isListType majType then
            returned majType (parallelizeAnyType e L majType columns s0)
          else if majType = PYOBJECT then
            returned majType (parallelizeAnyType e L majType columns s0)
          else
            Some (Inr (ErrorDataSet
                         (''unsupported type '' @ [CHR 0x27] @ desc majType @ [CHR 0x27]
                            @ '' found, could not transfer data to backend''),
                       majType, s0)))"

definition clear_quarantine :: "pystate \<Rightarrow> pystate" where
  "clear_quarantine s =
     (if badParallelizeObjects s \<noteq> [] then s\<lparr>badParallelizeObjects := []\<rparr> else s)"

definition parallelize ::
  "env \<Rightarrow> (Type \<Rightarrow> string) \<Rightarrow> pyobj list \<Rightarrow> nat list list \<Rightarrow> Type option \<Rightarrow> pystate
     \<Rightarrow> (exn + dataset \<times> pystate) option" where
  "parallelize e desc L columns schema s =
     (case parallelize_transfer e desc L columns schema s of
        None \<Rightarrow> None
      | Some (Inl ex) \<Rightarrow> Some (Inl ex)
      | Some (Inr r) \<Rightarrow> Some (Inr (fst r, clear_quarantine (snd (snd r)))))"


section \<open>The slow encoder under interruption\<close>

text \<open>
  \<open>observed e s k\<close>: the flag is set at the poll before row \<open>k\<close>, because it was set
  on entry or a signal was delivered before one of the polls up to \<open>k\<close>.
  \<open>slow_accepts\<close> is the test of line 508; \<open>visited\<close> is the interpreter state after
  \<open>n\<close> rows without interruption.
\<close>

definition observed :: "env \<Rightarrow> pystate \<Rightarrow> nat \<Rightarrow> bool" where
  "observed e s k \<longleftrightarrow> interrupt_flag s \<or> list_ex (signal_before_poll e) [0..<Suc k]"

definition slow_accepts :: "env \<Rightarrow> Type \<Rightarrow> pyobj \<Rightarrow> bool" where
  "slow_accepts e majType obj \<longleftrightarrow> isSubOptionType (mapPythonClassToTuplexType e obj) majType"

definition visited :: "(pyobj \<Rightarrow> bool) \<Rightarrow> pyobj list \<Rightarrow> nat \<Rightarrow> pystate \<Rightarrow> pystate" where
  "visited accepts L n s =
     s\<lparr>incref_log := incref_log s @ map ListItem [0..<n],
       badParallelizeObjects := badParallelizeObjects s @ rejected accepts L n\<rparr>"

lemma run_body_append:
  "run_body body (xs @ ys) s =
     (case run_body body xs s of Inl r \<Rightarrow> Inl r | Inr s' \<Rightarrow> run_body body ys s')"
  by (induction xs arbitrary: s) (auto split: sum.splits)

lemma interrupt_flag_same: "interrupt_flag s = b \<Longrightarrow> s\<lparr>interrupt_flag := b\<rparr> = s"
  by auto

lemma not_observed_flag:
  "\<not> observed e s k \<Longrightarrow> \<not> interrupt_flag s \<and> \<not> signal_before_poll e k"
  by (auto simp: observed_def list_ex_iff)

lemma anyType_step_quiet:
  assumes "\<not> interrupt_flag s" and "\<not> signal_before_poll e i"
  shows "anyType_step e L majType i (v, s) =
           Inr (v @ (if slow_accepts e majType (L ! i) then [Row (L ! i) majType] else []),
                if slow_accepts e majType (L ! i) then Py_XINCREF (ListItem i) s
                else emplace_back i (ListItem i) (Py_XINCREF (ListItem i) s))"
  using assms
  by (simp add: anyType_step_def deliver_signal_def check_interrupted_def slow_accepts_def Let_def
      interrupt_flag_same del: isSubOptionType.simps)

lemma anyType_step_interrupted:
  assumes "interrupt_flag s \<or> signal_before_poll e i"
  shows "anyType_step e L majType i (v, s) =
           Inl (ErrorDataSet ''interrupted transfer'',
                release_quarantine (s\<lparr>interrupt_flag := True\<rparr>))"
  using assms
  by (auto simp add: anyType_step_def deliver_signal_def check_interrupted_def Let_def)

lemma visited_Suc:
  "visited accepts L (Suc n) s =
     (if accepts (L ! n) then Py_XINCREF (ListItem n) (visited accepts L n s)
      else emplace_back n (ListItem n) (Py_XINCREF (ListItem n) (visited accepts L n s)))"
  by (simp add: visited_def rejected_Suc Py_XINCREF_def emplace_back_def)

lemma anyType_run_quiet:
  assumes "\<forall>i<n. \<not> observed e s i" and "n \<le> length L"
  shows "run_body (anyType_step e L majType) [0..<n] (v, s) =
           Inr (v @ map (\<lambda>obj. Row obj majType) (filter (slow_accepts e majType) (take n L)),
                visited (slow_accepts e majType) L n s)"
  using assms
proof (induction n)
  case 0
  then show ?case by (simp add: visited_def)
next
  case (Suc n)
  have q: "\<not> interrupt_flag s" "\<not> signal_before_poll e n"
    using Suc.prems(1) not_observed_flag [of e s n] by auto
  have f: "\<not> interrupt_flag (visited (slow_accepts e majType) L n s)"
    using q by (simp add: visited_def)
  have ih: "run_body (anyType_step e L majType) [0..<n] (v, s) =
           Inr (v @ map (\<lambda>obj. Row obj majType) (filter (slow_accepts e majType) (take n L)),
                visited (slow_accepts e majType) L n s)"
    using Suc by simp
  show ?case
    using Suc.prems(2)
    by (simp add: run_body_append ih anyType_step_quiet [OF f q(2)] filter_take_Suc visited_Suc)
qed

lemma fold_Py_XDECREF:
  "fold (\<lambda>t. Py_XDECREF (snd t)) q s = s\<lparr>decref_log := decref_log s @ map snd q\<rparr>"
  by (induction q arbitrary: s) (simp_all add: Py_XDECREF_def)

lemma anyType_run_interrupted:
  assumes "k < n" and "n \<le> length L" and "observed e s k" and "\<forall>i<k. \<not> observed e s i"
  shows "run_body (anyType_step e L majType) [0..<n] (v, s) =
           Inl (ErrorDataSet ''interrupted transfer'',
                release_quarantine ((visited (slow_accepts e majType) L k s)\<lparr>interrupt_flag := True\<rparr>))"
proof -
  have split: "[0..<n] = [0..<k] @ k # [Suc k..<n]"
    using assms(1) by (metis le_add1 less_imp_add_positive upt_add_eq_append upt_conv_Cons plus_nat.add_0)
  have quiet: "run_body (anyType_step e L majType) [0..<k] (v, s) =
           Inr (v @ map (\<lambda>obj. Row obj majType) (filter (slow_accepts e majType) (take k L)),
                visited (slow_accepts e majType) L k s)"
    using anyType_run_quiet [OF assms(4)] assms(1,2) by simp
  have "interrupt_flag s \<or> signal_before_poll e k"
  proof (cases k)
    case 0
    then show ?thesis using assms(3) by (simp add: observed_def)
  next
    case (Suc j)
    then have "\<not> observed e s j" using assms(4) by simp
    then show ?thesis using assms(3) Suc by (auto simp: observed_def)
  qed
  then have "interrupt_flag (visited (slow_accepts e majType) L k s) \<or> signal_before_poll e k"
    by (simp add: visited_def)
  then show ?thesis
    by (simp add: split run_body_append quiet anyType_step_interrupted)
qed

text \<open>
  Claim C6. If the interrupt flag is first observed set at the poll before row \<open>k\<close> of
  the slow encoder, the encoder returns the error dataset with the message
  \<open>interrupted transfer\<close> (and no rows); it has released exactly one reference for each
  entry of the quarantine list, each of which it had acquired when it visited the row;
  the list is empty; and the flag is still set.
\<close>

theorem interrupted_transfer:
  assumes "length L < 2 ^ 32" and "k < length L"
    and "observed e s k" and "\<forall>i<k. \<not> observed e s i"
  shows "\<exists>s'. parallelizeAnyType e L majType columns s
                 = Some (ErrorDataSet ''interrupted transfer'', s')
           \<and> badParallelizeObjects s' = []
           \<and> decref_log s' = decref_log s
                 @ map snd (badParallelizeObjects s @ rejected (slow_accepts e majType) L k)
           \<and> incref_log s' = incref_log s @ map ListItem [0..<k]
           \<and> interrupt_flag s'"
  using anyType_run_interrupted [OF assms(2) _ assms(3,4), of L majType "[]"]
  by (simp add: parallelizeAnyType_def for_unsigned_return_run [OF assms(1)]
      release_quarantine_def fold_Py_XDECREF visited_def)


theorem interrupted_transfer_witness:
  "\<exists>s'. parallelizeAnyType (demo_env\<lparr>signal_before_poll := (\<lambda>i. i = 2)\<rparr>)
            [PyNone, PyLong 1, PyNone, PyLong 2] NULLVALUE [] clean_state
          = Some (ErrorDataSet ''interrupted transfer'', s')
     \<and> badParallelizeObjects s' = []
     \<and> decref_log s' = [ListItem 1]
     \<and> incref_log s' = [ListItem 0, ListItem 1]
     \<and> interrupt_flag s'"
proof -
  let ?e = "demo_env\<lparr>signal_before_poll := (\<lambda>i. i = 2)\<rparr>"
  have l: "length [PyNone, PyLong 1, PyNone, PyLong 2] < (2 :: nat) ^ 32" by simp
  have k: "2 < length [PyNone, PyLong 1, PyNone, PyLong 2]" by simp
  have ob: "observed ?e clean_state 2"
    by (simp add: observed_def list_ex_iff)
  have nob: "\<forall>i<2. \<not> observed ?e clean_state i"
    by (auto simp: observed_def clean_state_def list_ex_iff)
  show ?thesis
    using interrupted_transfer [OF l k ob nob, of NULLVALUE "[]"]
    by (simp add: clean_state_def rejected_def slow_accepts_def demo_env_def upt_rec)
qed


section \<open>The dict-as-tuple path on a mixed list\<close>

lemma demo_dict_encoder:
  "\<exists>ps s'. strDictParallelize demo_env [PyDict [(PyUnicode [97], PyLong 1)], PyLong 5]
               (Tuple [I64]) [[97]] s
             = Some (FromPartitions (Tuple [I64]) ps [[97]], s')
      \<and> map numRows ps = [1]
      \<and> badParallelizeObjects s' = badParallelizeObjects s"
  apply (simp add: strDictParallelize_def for_unsigned_fold)
  apply (simp add: numeral_2_eq_2 strDict_step_def dict_column_step_def
      PyDict_GetItemString_def Let_def demo_env_def start_transfer_def finish_transfer_def
      Py_XINCREF_def poke_bytes_def inc_numRows_def poke64_def)
  apply (simp add: numRows_def load64_store64_same load64_store64_other
        open_partition_def Let_def lockWriteRaw_def unlockWrite_def demo_partition_def)
  apply (simp add: memcpy_def store64_def load64_def)
  done


lemma demo_inferType_mixed: "inferType demo_env [PyDict [(PyUnicode [97], PyLong 1)], PyLong 5] = Some (Inr (Dict STRING I64))"
  apply (simp add: inferType_def sampleSize_def for_unsigned_fold)
  apply (simp add: demo_env_def numeral_2_eq_2 count_type_def
      buildRowTypeFromSamples_def inferencer_defs liftNone_def)
  done

lemma demo_inferType_int: "inferType demo_env [PyLong 1] = Some (Inr I64)"
  apply (simp add: inferType_def sampleSize_def for_unsigned_fold)
  apply (simp add: demo_env_def count_type_def
      buildRowTypeFromSamples_def inferencer_defs liftNone_def)
  done


lemma demo_sample:
  "fold (sample_item_step [PyDict [(PyUnicode [97], PyLong 1)], PyLong 5]) [0..<2]
     \<lparr>counts = [], cols = [], num_dicts = 0, sample_py = s\<rparr>
   = \<lparr>counts = [([97], 1)], cols = [([97], [(DictValue 0 [97], PyLong 1)])], num_dicts = 1,
      sample_py = s\<lparr>incref_log := incref_log s @ [ListItem 0, DictValue 0 [97], ListItem 1]\<rparr>\<rparr>"
  by (simp add: numeral_2_eq_2 sample_item_step_def sample_key_step_def Let_def
      lookup_default_def Py_XINCREF_def)

lemma demo_projector:
  "inferColumnsFromDictObjects demo_env [PyDict [(PyUnicode [97], PyLong 1)], PyLong 5]
     (ddiv (double_of_int 9) (double_of_int 10)) s
   = Some (Inr ([([97], I64)],
        s\<lparr>incref_log := incref_log s @ [ListItem 0, DictValue 0 [97], ListItem 1, DictValue 0 [97]]\<rparr>))"
proof -
  have ss: "sampleSize demo_env [PyDict [(PyUnicode [97], PyLong 1)], PyLong 5] = 2"
    by (simp add: sampleSize_def demo_env_def)
  have uo: "unordered_order demo_env = (\<lambda>ks. ks)"
    by (simp add: demo_env_def)
  have c: "dle (dceil (dmul (ddiv (double_of_int 9) (double_of_int 10)) (double_of_int 1)))
             (double_of_int 1)"
    by (simp add: double_defs Let_def)
  show ?thesis
    by (simp add: inferColumnsFromDictObjects_def ss demo_sample uo lookup_default_def c demo_inferType_int
        Py_XINCREF_def Let_def)
qed


text \<open>
  Claim C4 at the input list \<open>[{"a": 1}, 5]\<close> with no columns and no schema. The
  inferred type is a string-keyed dictionary, the projector finds the column \<open>a\<close> of
  type \<open>I64\<close>, and the dict-as-tuple encoder writes one row. The element \<open>5\<close> at index 1
  is not a dictionary: it is neither written nor quarantined. So \<open>N = 2\<close> elements with
  \<open>k = 0\<close> quarantined indices give one row.
\<close>

theorem dict_path_drops_non_dict:
  "(\<exists>ps s1. parallelize_transfer demo_env (\<lambda>t. []) [PyDict [(PyUnicode [97], PyLong 1)], PyLong 5]
               [] None clean_state
             = Some (Inr (FromPartitions (Tuple [I64]) ps [[97]], Tuple [I64], s1))
      \<and> map numRows ps = [1]
      \<and> badParallelizeObjects s1 = [])
   \<and> (\<exists>ps s'. parallelize demo_env (\<lambda>t. []) [PyDict [(PyUnicode [97], PyLong 1)], PyLong 5]
               [] None clean_state
             = Some (Inr (FromPartitions (Tuple [I64]) ps [[97]], s'))
      \<and> map numRows ps = [1]
      \<and> badParallelizeObjects s' = [])"
proof -
  let ?L = "[PyDict [(PyUnicode [97], PyLong 1)], PyLong 5]"
  let ?s = "clean_state\<lparr>badParallelizeObjects := []\<rparr>"
  let ?s1 = "?s\<lparr>incref_log := incref_log ?s @ [ListItem 0, DictValue 0 [97], ListItem 1, DictValue 0 [97]]\<rparr>"
  obtain ps s' where enc: "strDictParallelize demo_env ?L (Tuple [I64]) [[97]] ?s1
             = Some (FromPartitions (Tuple [I64]) ps [[97]], s')"
    and rows: "map numRows ps = [1]"
    and bad: "badParallelizeObjects s' = badParallelizeObjects ?s1"
    using demo_dict_encoder [of ?s1] by (elim exE conjE) (rule that)
  have nt: "NORMALCASE_THRESHOLD demo_env = ddiv (double_of_int 9) (double_of_int 10)" and uo: "unordered_order demo_env = (\<lambda>ks. ks)"
    by (simp_all add: demo_env_def)
  have tr: "parallelize_transfer demo_env (\<lambda>t. []) ?L [] None clean_state
             = Some (Inr (FromPartitions (Tuple [I64]) ps [[97]], Tuple [I64], s'))"
    using enc
    by (simp add: parallelize_transfer_def demo_inferType_mixed is_str_dict_def nt demo_projector uo returned_def Let_def)
  have b: "badParallelizeObjects s' = []"
    using bad by simp
  have "parallelize demo_env (\<lambda>t. []) ?L [] None clean_state
             = Some (Inr (FromPartitions (Tuple [I64]) ps [[97]], s'))"
    using b by (simp add: parallelize_def tr clear_quarantine_def)
  then show ?thesis using tr rows b by simp
qed


section \<open>The exception of the dict column projector\<close>

text \<open>The exception of line 986.\<close>

definition inference_failed :: exn where
  "inference_failed =
     RuntimeError ''type inference from dictionary objects failed. Please provide manually a schema.''"

lemma sample_no_dicts:
  assumes "\<forall>item\<in>set L. \<not> PyDict_Check item" and "n \<le> length L"
  shows "counts (fold (sample_item_step L) [0..<n] a) = counts a
         \<and> cols (fold (sample_item_step L) [0..<n] a) = cols a"
  using assms(2)
proof (induction n)
  case 0
  then show ?case by simp
next
  case (Suc n)
  then have "\<not> PyDict_Check (L ! n)" using assms(1) by simp
  then show ?case using Suc by (simp add: sample_item_step_def Let_def)
qed

lemma find_no_dicts:
  "\<forall>item\<in>set L. \<not> PyDict_Check item
     \<Longrightarrow> find (\<lambda>item. PyDict_Check item \<and> all_strs item) L = None"
  by (auto simp: find_None_iff)

lemma projector_no_dicts:
  assumes "\<forall>ks. set (unordered_order e ks) \<subseteq> set ks"
    and "\<forall>item\<in>set L. \<not> PyDict_Check item" and "length L < 2 ^ 31"
  shows "inferColumnsFromDictObjects e L nu s = Some (Inl inference_failed)"
proof -
  let ?a = "fold (sample_item_step L) [0..<sampleSize e L]
              \<lparr>counts = [], cols = [], num_dicts = 0, sample_py = s\<rparr>"
  have "counts ?a = []"
    using sample_no_dicts [OF assms(2), of "sampleSize e L"] by (simp add: sampleSize_def)
  moreover have "unordered_order e [] = []"
    using assms(1) by (metis set_empty subset_empty)
  ultimately show ?thesis
    using assms(3) find_no_dicts [OF assms(2)]
    by (simp add: inferColumnsFromDictObjects_def Let_def first_row_schema_def inference_failed_def)
qed



definition unsupported_type :: "(Type \<Rightarrow> string) \<Rightarrow> Type \<Rightarrow> dataset" where
  "unsupported_type desc t =
     ErrorDataSet (''unsupported type '' @ [CHR 0x27] @ desc t @ [CHR 0x27]
                     @ '' found, could not transfer data to backend'')"

text \<open>
  Claim C5 at the list \<open>[1, 2]\<close> with the declared schema \<open>Dict(STRING, I64)\<close>. The
  projector finds no column and no dictionary to fall back on, and throws at line 986;
  \<open>parallelize\<close> has no handler, so the exception reaches its caller instead of an error
  dataset. A failure that \<open>parallelize\<close> detects itself, here the type \<open>UNKNOWN\<close> for the
  same list, is returned as an error dataset (lines 719-721).
\<close>

theorem parallelize_raises_inference_error:
  "parallelize demo_env (\<lambda>t. []) [PyLong 1, PyLong 2] [] (Some (Dict STRING I64)) clean_state
     = Some (Inl (RuntimeError
         ''type inference from dictionary objects failed. Please provide manually a schema.''))
   \<and> parallelize demo_env (\<lambda>t. []) [PyLong 1, PyLong 2] [] (Some UNKNOWN) clean_state
     = Some (Inr (unsupported_type (\<lambda>t. []) UNKNOWN, clean_state))"
proof -
  have "inferColumnsFromDictObjects demo_env [PyLong 1, PyLong 2] nu s = Some (Inl inference_failed)"
    for nu s
    by (rule projector_no_dicts) (simp_all add: demo_env_def)
  then have "parallelize demo_env (\<lambda>t. []) [PyLong 1, PyLong 2] [] (Some (Dict STRING I64)) clean_state
     = Some (Inl (RuntimeError
         ''type inference from dictionary objects failed. Please provide manually a schema.''))"
    by (simp add: parallelize_def parallelize_transfer_def is_str_dict_def Let_def
        inference_failed_def)
  moreover have "parallelize demo_env (\<lambda>t. []) [PyLong 1, PyLong 2] [] (Some UNKNOWN) clean_state
     = Some (Inr (unsupported_type (\<lambda>t. []) UNKNOWN, clean_state))"
    by (simp add: parallelize_def parallelize_transfer_def Let_def is_str_dict_def
        unsupported_type_def clear_quarantine_def clean_state_def)
  ultimately show ?thesis by simp
qed


section \<open>References held by the quarantine list\<close>





























section \<open>Tuple encoder: the rows in the partitions\<close>

text \<open>
  The check each \<open>case\<close> of the \<open>switch\<close> at lines 235-279 makes on its field before it
  writes; a character that is none of \<open>b\<close>, \<open>i\<close>, \<open>f\<close>, \<open>s\<close> has no case, so no check.
  A tuple passes the encoder when it passes the tests of lines 207-208 and every field
  passes its check.
\<close>

definition field_ok :: "char \<Rightarrow> pyobj \<Rightarrow> bool" where
  "field_ok c el =
     (if c = CHR ''b'' then PyBool_Check el
      else if c = CHR ''i'' then PyLong_CheckExact el
      else if c = CHR ''f'' then PyFloat_CheckExact el
      else if c = CHR ''s'' then PyUnicode_Check el
      else True)"



text \<open>
  The field loop reads through \<open>NULL\<close> when it reaches, before any field that fails its
  check, a string field whose string has no UTF-8 encoding.
\<close>

fun reads_null :: "char list \<Rightarrow> pyobj \<Rightarrow> nat list \<Rightarrow> bool" where
  "reads_null typeStr obj [] = False"
| "reads_null typeStr obj (j # js) =
     (if \<not> field_ok (typeStr ! j) (PyTuple_GET_ITEM obj j) then False
      else if typeStr ! j = CHR ''s'' \<and> utf8_of (PyTuple_GET_ITEM obj j) = None then True
      else reads_null typeStr obj js)"

text \<open>
  The field loop changes only the partition's bytes, the cursor and (through
  \<open>PyLong_AsLongLong\<close>) the interpreter state.
\<close>

definition touched :: "transfer \<Rightarrow> memory \<Rightarrow> nat \<Rightarrow> pystate \<Rightarrow> transfer" where
  "touched x m p s = x\<lparr>cur_partition := (cur_partition x)\<lparr>mem := m\<rparr>, ptr := p, py := s\<rparr>"

lemma touched_touched [simp]: "touched (touched x m1 p1 s1) m2 p2 s2 = touched x m2 p2 s2"
  by (simp add: touched_def)

lemma touched_fields [simp]:
  "mem (cur_partition (touched x m p s)) = m" "ptr (touched x m p s) = p" "py (touched x m p s) = s"
  "partitions (touched x m p s) = partitions x"
  "numBytesSerialized (touched x m p s) = numBytesSerialized x"
  "capacity (cur_partition (touched x m p s)) = capacity (cur_partition x)"
  by (simp_all add: touched_def)






lemma bad_PyLong_AsLongLong [simp]:
  "badParallelizeObjects (snd (PyLong_AsLongLong el s)) = badParallelizeObjects s"
  by (cases el) simp_all













fun long_long_value :: "pyobj \<Rightarrow> 64 word" where
  "long_long_value (PyLong v) = (if fits_int64 v then word_of_int v else - 1)"
| "long_long_value (PyBool b) = (if b then 1 else 0)"
| "long_long_value _ = - 1"



lemma fst_PyLong_AsLongLong [simp]: "fst (PyLong_AsLongLong el s) = long_long_value el"
  by (cases el) simp_all











lemma serialize_fields_Faulted:
  "reads_null typeStr obj js \<Longrightarrow> serialize_fields e n typeStr obj js rv x = Faulted"
  by (induction js arbitrary: rv x)
    (auto simp add: field_ok_def Let_def split: if_splits)





definition row_base :: "nat \<Rightarrow> bool \<Rightarrow> nat" where
  "row_base n varLen = (n + (if varLen then 1 else 0)) * 8"

definition row_size :: "nat \<Rightarrow> bool \<Rightarrow> memory \<Rightarrow> nat \<Rightarrow> nat" where
  "row_size n varLen m a = row_base n varLen + (if varLen then unat (load64 m (a + 8 * n)) else 0)"

definition read_row :: "nat \<Rightarrow> bool \<Rightarrow> memory \<Rightarrow> nat \<Rightarrow> 64 word list \<times> 8 word list" where
  "read_row n varLen m a =
     (map (\<lambda>j. load64 m (a + 8 * j)) [0..<n],
      map m [a + row_base n varLen ..< a + row_size n varLen m a])"

fun read_rows :: "nat \<Rightarrow> bool \<Rightarrow> memory \<Rightarrow> nat \<Rightarrow> nat \<Rightarrow> (64 word list \<times> 8 word list) list" where
  "read_rows n varLen m a 0 = []"
| "read_rows n varLen m a (Suc k) =
     read_row n varLen m a # read_rows n varLen m (a + row_size n varLen m a) k"


definition tuple_rows :: "nat \<Rightarrow> bool \<Rightarrow> partition \<Rightarrow> (64 word list \<times> 8 word list) list" where
  "tuple_rows n varLen p = read_rows n varLen (mem p) 8 (unat (numRows p))"









lemma tuple_rows_unlockWrite [simp]: "tuple_rows n varLen (unlockWrite p) = tuple_rows n varLen p"
  by (simp add: tuple_rows_def unlockWrite_def numRows_def)

lemma tuple_rows_open_partition [simp]: "tuple_rows n varLen (open_partition e k) = []"
  by (simp add: tuple_rows_def)












definition tuple_loop ::
  "env \<Rightarrow> nat \<Rightarrow> char list \<Rightarrow> bool \<Rightarrow> pyobj list \<Rightarrow> pystate \<Rightarrow> nat \<Rightarrow> fault + transfer" where
  "tuple_loop e n typeStr varLen L s k =
     run_body (fastTuple_step e n typeStr varLen L) [0..<k] (start_transfer e (allocMinSize e) s)"



text \<open>
  A candidate tuple on which the field loop reads through \<open>NULL\<close> ends the encoder: there
  is no result.
\<close>

lemma tuple_loop_faults:
  assumes "tuple_loop e n typeStr varLen L s k = Inr x"
    and "PyTuple_Check (L ! k)" and "PyTuple_Size (L ! k) = n"
    and "reads_null typeStr (L ! k) [0..<n]"
  shows "tuple_loop e n typeStr varLen L s (Suc k) = Inl NullRead"
  using assms serialize_fields_Faulted [OF assms(4)]
  by (simp add: tuple_loop_def run_body_append fastTuple_step_def Let_def split: sum.splits)

lemma surrogate_row_faults:
  "fastMixedSimpleTypeTupleTransfer demo_env [PyTuple [PyUnicode [0xD800]]] (Tuple [STRING]) []
     clean_state = None"
  by (simp add: fastMixedSimpleTypeTupleTransfer_def for_unsigned_return_run finish_or_fault_def
      demo_env_def fastTuple_step_def Let_def PyUnicode_AsUTF8_def encodable_def)





end
